theory Spec2Isabelle
  imports Complex_Main
begin

section \<open>The drawing surface\<close>

text \<open>
  The component \<open>BeforeAfterReelsTool\<close> paints on one 2D canvas. An effect function is
  modelled by the list of context calls it issues, in order; the surface is the list of
  all calls issued so far. JavaScript numbers are idealised as reals and
  \<open>Date.now()\<close> values as integers (milliseconds).
\<close>

record image =
  img_width :: nat
  img_height :: nat
  img_src :: string

datatype color =
  Rgba real real real real
  | Hsla real real real real

datatype gradient =
  LinearGradient real real real real "(real \<times> color) list"
  | RadialGradient real real real real real real "(real \<times> color) list"

datatype paint = Solid color | Grad gradient

datatype canvas_filter = FilterNone | Blur real | HueRotate real

datatype composite = SourceOver | Screen | DestinationOut | DestinationOver

datatype canvas_op =
  ClearRect real real real real
  | Save
  | Restore
  | SetGlobalAlpha real
  | SetGlobalCompositeOperation composite
  | SetFillStyle paint
  | SetStrokeStyle color
  | SetLineWidth real
  | SetFilter canvas_filter
  | SetImageSmoothingEnabled bool
  | Translate real real
  | Scale real real
  | Rotate real
  | BeginPath
  | ClosePath
  | MoveTo real real
  | LineTo real real
  | QuadraticCurveTo real real real real
  | Rect real real real real
  | Arc real real real real real
  | Clip
  | Fill
  | Stroke
  | FillRect real real real real
  | DrawImage image real real real real
  | DrawImageNonFinite image
  | DrawImageSub image real real real real real real real real
  | SampleSurfaceToTemp int int
  | DrawTempCanvas int int real real real real

definition CANVAS_WIDTH :: real where
  "CANVAS_WIDTH = 1080"

definition CANVAS_HEIGHT :: real where
  "CANVAS_HEIGHT = 1920"

text \<open>
  \<open>drawImage(ctx, img, alpha)\<close>: nothing for a null image; otherwise the image is drawn
  centred and scaled to cover the canvas. An image of width or height 0 makes the
  scale infinite; the call is then recorded as \<open>DrawImageNonFinite\<close>.
\<close>

definition drawImage :: "image option \<Rightarrow> real \<Rightarrow> canvas_op list" where
  "drawImage img alpha =
     (case img of
        None \<Rightarrow> []
      | Some im \<Rightarrow>
          [Save, SetGlobalAlpha alpha,
           (if img_width im = 0 \<or> img_height im = 0 then DrawImageNonFinite im
            else
              let scale = max (CANVAS_WIDTH / real (img_width im))
                              (CANVAS_HEIGHT / real (img_height im));
                  x = (CANVAS_WIDTH - real (img_width im) * scale) / 2;
                  y = (CANVAS_HEIGHT - real (img_height im) * scale) / 2
              in DrawImage im x y (real (img_width im) * scale) (real (img_height im) * scale)),
           Restore])"

section \<open>The effect library\<close>

text \<open>
  Every effect reads \<open>beforeImageRef.current\<close> and \<open>afterImageRef.current\<close> (the first two
  arguments), some read the \<open>intensity\<close> of their closure, and two call
  \<open>Math.random()\<close>: \<open>rnd k\<close> is the value of the \<open>k\<close>-th call within the frame.
\<close>

definition applyShockZoom :: "image option \<Rightarrow> image option \<Rightarrow> real \<Rightarrow> real \<Rightarrow> canvas_op list" where
  "applyShockZoom beforeImg afterImg intensity t =
     (if beforeImg = None \<or> afterImg = None then []
      else
        let zoomPhase = (if t < 0.5 then t * 2 else (1 - t) * 2);
            zoom = 1 + zoomPhase * intensity * 0.3;
            afterZoom = 1 + (1 - t) * intensity * 0.5
        in [ClearRect 0 0 CANVAS_WIDTH CANVAS_HEIGHT]
           @ (if t < 0.8 then
                [Save, Translate (CANVAS_WIDTH / 2) (CANVAS_HEIGHT / 2), Scale zoom zoom,
                 Translate (- CANVAS_WIDTH / 2) (- CANVAS_HEIGHT / 2)]
                @ drawImage beforeImg (max 0 (1 - t * 1.5)) @ [Restore]
              else [])
           @ (if t > 0.2 then
                [Save, Translate (CANVAS_WIDTH / 2) (CANVAS_HEIGHT / 2), Scale afterZoom afterZoom,
                 Translate (- CANVAS_WIDTH / 2) (- CANVAS_HEIGHT / 2)]
                @ drawImage afterImg (min 1 ((t - 0.2) * 1.5)) @ [Restore]
              else []))"

definition applyRGBGlitch :: "image option \<Rightarrow> image option \<Rightarrow> real \<Rightarrow> real \<Rightarrow> canvas_op list" where
  "applyRGBGlitch beforeImg afterImg intensity t =
     (if beforeImg = None \<or> afterImg = None then []
      else
        let showBefore = (t < 0.5);
            glitchIntensity = sin (t * pi) * intensity;
            offset = glitchIntensity * 20
        in [ClearRect 0 0 CANVAS_WIDTH CANVAS_HEIGHT]
           @ drawImage (if showBefore then beforeImg else afterImg) 1
           @ (if glitchIntensity > 0.1 then
                [Save, SetGlobalCompositeOperation Screen, SetGlobalAlpha 0.5, Translate (- offset) 0]
                @ drawImage (if showBefore then afterImg else beforeImg) glitchIntensity
                @ [Restore]
                @ [Save, SetGlobalCompositeOperation Screen, SetGlobalAlpha 0.5, Translate offset 0]
                @ drawImage (if showBefore then afterImg else beforeImg) glitchIntensity
                @ [Restore]
              else []))"

definition applyFilmBurn ::
  "image option \<Rightarrow> image option \<Rightarrow> real \<Rightarrow> (nat \<Rightarrow> real) \<Rightarrow> real \<Rightarrow> canvas_op list" where
  "applyFilmBurn beforeImg afterImg intensity rnd t =
     (if beforeImg = None \<or> afterImg = None then []
      else
        let burnProgress = t;
            burnRadius = sqrt (CANVAS_WIDTH ^ 2 + CANVAS_HEIGHT ^ 2) * burnProgress;
            centerX = CANVAS_WIDTH / 2 + sin (intensity * pi) * 50 * intensity;
            centerY = CANVAS_HEIGHT / 2 + cos (intensity * pi) * 50 * intensity;
            gradient = RadialGradient centerX centerY (burnRadius * 0.7) centerX centerY burnRadius
                         [(0, Rgba 255 200 100 0), (0.5, Rgba 255 150 50 (intensity * 0.3)),
                          (1, Rgba 255 100 0 0)]
        in [ClearRect 0 0 CANVAS_WIDTH CANVAS_HEIGHT]
           @ drawImage beforeImg 1
           @ [SetFillStyle (Grad gradient), FillRect 0 0 CANVAS_WIDTH CANVAS_HEIGHT]
           @ [Save, SetGlobalCompositeOperation DestinationOut, BeginPath,
              Arc centerX centerY (burnRadius * 0.9) 0 (pi * 2), Fill, Restore]
           @ [Save, BeginPath, Arc centerX centerY (burnRadius * 0.9) 0 (pi * 2), Clip]
           @ drawImage afterImg 1 @ [Restore]
           @ (if burnProgress < 0.95 then
                [Save, SetGlobalAlpha (intensity * 0.3)]
                @ concat (map (\<lambda>i.
                    let angle = rnd (5 * i) * pi * 2;
                        dist = burnRadius * (0.85 + rnd (5 * i + 1) * 0.15);
                        x = centerX + cos angle * dist;
                        y = centerY + sin angle * dist;
                        size = rnd (5 * i + 2) * 5 + 2
                    in [SetFillStyle (Solid (Rgba 255 (100 + rnd (5 * i + 3) * 100) 0 (rnd (5 * i + 4)))),
                        FillRect x y size size]) [0..<100])
                @ [Restore]
              else []))"

definition applyParticleBurst ::
  "image option \<Rightarrow> image option \<Rightarrow> real \<Rightarrow> (nat \<Rightarrow> real) \<Rightarrow> real \<Rightarrow> canvas_op list" where
  "applyParticleBurst beforeImg afterImg intensity rnd t =
     (if beforeImg = None \<or> afterImg = None then []
      else
        let particleCount = \<lfloor>200 * intensity\<rfloor>;
            burstPhase = sin (t * pi)
        in [ClearRect 0 0 CANVAS_WIDTH CANVAS_HEIGHT]
           @ drawImage beforeImg (max 0 (1 - t))
           @ drawImage afterImg (min 1 t)
           @ (if burstPhase > 0.1 then
                [Save]
                @ concat (map (\<lambda>i.
                    let angle = (real i / real_of_int particleCount) * pi * 2 + t * pi * 0.5;
                        distance = burstPhase * (300 + real i * 2) * intensity;
                        size = (1 - burstPhase) * (8 + rnd i * 4);
                        x = CANVAS_WIDTH / 2 + cos angle * distance;
                        y = CANVAS_HEIGHT / 2 + sin angle * distance;
                        hue = (real i / real_of_int particleCount) * 360;
                        glow = RadialGradient x y 0 x y (size * 2)
                                 [(0, Hsla hue 80 70 ((1 - burstPhase) * 0.5)), (1, Hsla 0 0 0 0)]
                    in [SetFillStyle (Solid (Hsla hue 80 60 ((1 - burstPhase) * 0.8))),
                        BeginPath, Arc x y size 0 (pi * 2), Fill,
                        SetFillStyle (Grad glow),
                        BeginPath, Arc x y (size * 2) 0 (pi * 2), Fill]) [0..<nat particleCount])
                @ [Restore]
              else []))"

definition applyWipeReveal :: "image option \<Rightarrow> image option \<Rightarrow> real \<Rightarrow> real \<Rightarrow> canvas_op list" where
  "applyWipeReveal beforeImg afterImg intensity t =
     (if beforeImg = None \<or> afterImg = None then []
      else
        let wipeX = t * CANVAS_WIDTH;
            edgeWidth = 50 * intensity;
            gradient = LinearGradient (wipeX - edgeWidth) 0 (wipeX + edgeWidth) 0
                         [(0, Rgba 255 255 255 0), (0.5, Rgba 255 255 255 (intensity * 0.8)),
                          (1, Rgba 255 255 255 0)]
        in [ClearRect 0 0 CANVAS_WIDTH CANVAS_HEIGHT]
           @ drawImage beforeImg 1
           @ [Save, BeginPath, Rect 0 0 wipeX CANVAS_HEIGHT, Clip]
           @ drawImage afterImg 1 @ [Restore]
           @ [SetFillStyle (Grad gradient),
              FillRect (wipeX - edgeWidth) 0 (edgeWidth * 2) CANVAS_HEIGHT]
           @ [Save, SetStrokeStyle (Rgba 255 255 255 (intensity * 0.4)), SetLineWidth 3]
           @ concat (map (\<lambda>i.
               let offset = real i * 30 - 150
               in [BeginPath, MoveTo (wipeX + offset) 0,
                   LineTo (wipeX + offset + 200) CANVAS_HEIGHT, Stroke]) [0..<10])
           @ [Restore])"

definition applyVerticalWipe :: "image option \<Rightarrow> image option \<Rightarrow> real \<Rightarrow> canvas_op list" where
  "applyVerticalWipe beforeImg afterImg t =
     (if beforeImg = None \<or> afterImg = None then []
      else
        let wipeY = t * CANVAS_HEIGHT
        in [ClearRect 0 0 CANVAS_WIDTH CANVAS_HEIGHT]
           @ drawImage beforeImg 1
           @ [Save, BeginPath, Rect 0 0 CANVAS_WIDTH wipeY, Clip]
           @ drawImage afterImg 1 @ [Restore])"

definition applyCircularReveal :: "image option \<Rightarrow> image option \<Rightarrow> real \<Rightarrow> canvas_op list" where
  "applyCircularReveal beforeImg afterImg t =
     (if beforeImg = None \<or> afterImg = None then []
      else
        let maxRadius = sqrt (CANVAS_WIDTH ^ 2 + CANVAS_HEIGHT ^ 2) / 2;
            radius = t * maxRadius
        in [ClearRect 0 0 CANVAS_WIDTH CANVAS_HEIGHT]
           @ drawImage beforeImg 1
           @ [Save, BeginPath, Arc (CANVAS_WIDTH / 2) (CANVAS_HEIGHT / 2) radius 0 (pi * 2), Clip]
           @ drawImage afterImg 1 @ [Restore])"

definition applyZoomIn :: "image option \<Rightarrow> image option \<Rightarrow> real \<Rightarrow> real \<Rightarrow> canvas_op list" where
  "applyZoomIn beforeImg afterImg intensity t =
     (if beforeImg = None \<or> afterImg = None then []
      else
        let zoom = 1 + t * intensity * 2
        in [ClearRect 0 0 CANVAS_WIDTH CANVAS_HEIGHT]
           @ [Save, Translate (CANVAS_WIDTH / 2) (CANVAS_HEIGHT / 2), Scale zoom zoom,
              Translate (- CANVAS_WIDTH / 2) (- CANVAS_HEIGHT / 2)]
           @ drawImage beforeImg (1 - t) @ drawImage afterImg t @ [Restore])"

definition applyZoomOut :: "image option \<Rightarrow> image option \<Rightarrow> real \<Rightarrow> real \<Rightarrow> canvas_op list" where
  "applyZoomOut beforeImg afterImg intensity t =
     (if beforeImg = None \<or> afterImg = None then []
      else
        let zoom = 2 - t * intensity
        in [ClearRect 0 0 CANVAS_WIDTH CANVAS_HEIGHT]
           @ [Save, Translate (CANVAS_WIDTH / 2) (CANVAS_HEIGHT / 2), Scale zoom zoom,
              Translate (- CANVAS_WIDTH / 2) (- CANVAS_HEIGHT / 2)]
           @ drawImage beforeImg (1 - t) @ drawImage afterImg t @ [Restore])"

definition applySlideLeft :: "image option \<Rightarrow> image option \<Rightarrow> real \<Rightarrow> canvas_op list" where
  "applySlideLeft beforeImg afterImg t =
     (if beforeImg = None \<or> afterImg = None then []
      else
        let offset = t * CANVAS_WIDTH
        in [ClearRect 0 0 CANVAS_WIDTH CANVAS_HEIGHT]
           @ [Save, Translate (- offset) 0] @ drawImage beforeImg 1 @ [Restore]
           @ [Save, Translate (CANVAS_WIDTH - offset) 0] @ drawImage afterImg 1 @ [Restore])"

definition applySlideRight :: "image option \<Rightarrow> image option \<Rightarrow> real \<Rightarrow> canvas_op list" where
  "applySlideRight beforeImg afterImg t =
     (if beforeImg = None \<or> afterImg = None then []
      else
        let offset = t * CANVAS_WIDTH
        in [ClearRect 0 0 CANVAS_WIDTH CANVAS_HEIGHT]
           @ [Save, Translate offset 0] @ drawImage beforeImg 1 @ [Restore]
           @ [Save, Translate (- CANVAS_WIDTH + offset) 0] @ drawImage afterImg 1 @ [Restore])"

definition applySlideUp :: "image option \<Rightarrow> image option \<Rightarrow> real \<Rightarrow> canvas_op list" where
  "applySlideUp beforeImg afterImg t =
     (if beforeImg = None \<or> afterImg = None then []
      else
        let offset = t * CANVAS_HEIGHT
        in [ClearRect 0 0 CANVAS_WIDTH CANVAS_HEIGHT]
           @ [Save, Translate 0 (- offset)] @ drawImage beforeImg 1 @ [Restore]
           @ [Save, Translate 0 (CANVAS_HEIGHT - offset)] @ drawImage afterImg 1 @ [Restore])"

definition applySlideDown :: "image option \<Rightarrow> image option \<Rightarrow> real \<Rightarrow> canvas_op list" where
  "applySlideDown beforeImg afterImg t =
     (if beforeImg = None \<or> afterImg = None then []
      else
        let offset = t * CANVAS_HEIGHT
        in [ClearRect 0 0 CANVAS_WIDTH CANVAS_HEIGHT]
           @ [Save, Translate 0 offset] @ drawImage beforeImg 1 @ [Restore]
           @ [Save, Translate 0 (- CANVAS_HEIGHT + offset)] @ drawImage afterImg 1 @ [Restore])"

definition applyFadeCross :: "image option \<Rightarrow> image option \<Rightarrow> real \<Rightarrow> canvas_op list" where
  "applyFadeCross beforeImg afterImg t =
     (if beforeImg = None \<or> afterImg = None then []
      else
        [ClearRect 0 0 CANVAS_WIDTH CANVAS_HEIGHT]
        @ drawImage beforeImg (1 - t) @ drawImage afterImg t)"

definition applySpinClockwise :: "image option \<Rightarrow> image option \<Rightarrow> real \<Rightarrow> real \<Rightarrow> canvas_op list" where
  "applySpinClockwise beforeImg afterImg intensity t =
     (if beforeImg = None \<or> afterImg = None then []
      else
        [ClearRect 0 0 CANVAS_WIDTH CANVAS_HEIGHT]
        @ [Save, Translate (CANVAS_WIDTH / 2) (CANVAS_HEIGHT / 2), Rotate (t * pi * 2 * intensity),
           Translate (- CANVAS_WIDTH / 2) (- CANVAS_HEIGHT / 2)]
        @ drawImage beforeImg (1 - t) @ [Restore]
        @ [Save, Translate (CANVAS_WIDTH / 2) (CANVAS_HEIGHT / 2),
           Rotate ((t - 1) * pi * 2 * intensity),
           Translate (- CANVAS_WIDTH / 2) (- CANVAS_HEIGHT / 2)]
        @ drawImage afterImg t @ [Restore])"

definition applySpinCounterClockwise ::
  "image option \<Rightarrow> image option \<Rightarrow> real \<Rightarrow> real \<Rightarrow> canvas_op list" where
  "applySpinCounterClockwise beforeImg afterImg intensity t =
     (if beforeImg = None \<or> afterImg = None then []
      else
        [ClearRect 0 0 CANVAS_WIDTH CANVAS_HEIGHT]
        @ [Save, Translate (CANVAS_WIDTH / 2) (CANVAS_HEIGHT / 2), Rotate (- t * pi * 2 * intensity),
           Translate (- CANVAS_WIDTH / 2) (- CANVAS_HEIGHT / 2)]
        @ drawImage beforeImg (1 - t) @ [Restore]
        @ [Save, Translate (CANVAS_WIDTH / 2) (CANVAS_HEIGHT / 2),
           Rotate (- (t - 1) * pi * 2 * intensity),
           Translate (- CANVAS_WIDTH / 2) (- CANVAS_HEIGHT / 2)]
        @ drawImage afterImg t @ [Restore])"

definition applyDiagonalWipe :: "image option \<Rightarrow> image option \<Rightarrow> real \<Rightarrow> canvas_op list" where
  "applyDiagonalWipe beforeImg afterImg t =
     (if beforeImg = None \<or> afterImg = None then []
      else
        [ClearRect 0 0 CANVAS_WIDTH CANVAS_HEIGHT]
        @ drawImage beforeImg 1
        @ [Save, BeginPath, MoveTo 0 0, LineTo (t * (CANVAS_WIDTH + CANVAS_HEIGHT)) 0,
           LineTo 0 (t * (CANVAS_WIDTH + CANVAS_HEIGHT)), ClosePath, Clip]
        @ drawImage afterImg 1 @ [Restore])"

definition applyBoxExpand :: "image option \<Rightarrow> image option \<Rightarrow> real \<Rightarrow> canvas_op list" where
  "applyBoxExpand beforeImg afterImg t =
     (if beforeImg = None \<or> afterImg = None then []
      else
        let width = t * CANVAS_WIDTH;
            height = t * CANVAS_HEIGHT;
            x = (CANVAS_WIDTH - width) / 2;
            y = (CANVAS_HEIGHT - height) / 2
        in [ClearRect 0 0 CANVAS_WIDTH CANVAS_HEIGHT]
           @ drawImage beforeImg 1
           @ [Save, BeginPath, Rect x y width height, Clip]
           @ drawImage afterImg 1 @ [Restore])"

text \<open>
  The pixelate effect copies the canvas itself (\<open>canvasRef.current\<close>) into a temporary
  canvas of \<open>w \<times> h\<close> pixels and draws that back over the whole surface. The block
  size is written here as the floor of the exact product. The code floors the product as
  rounded in double precision, which for some inputs lies just below an integer that the
  exact product reaches (progress 0.05 and intensity 0.2 give 1.9999999999999998): there
  the code's block size is one less than this one. The statements about pixelate below
  hold for either block size.
\<close>

definition pixelateResample :: "int \<Rightarrow> canvas_op list" where
  "pixelateResample pixelSize =
     (if pixelSize > 1 then
        let w = \<lfloor>CANVAS_WIDTH / real_of_int pixelSize\<rfloor>;
            h = \<lfloor>CANVAS_HEIGHT / real_of_int pixelSize\<rfloor>
        in [SetImageSmoothingEnabled False, SampleSurfaceToTemp w h,
            DrawTempCanvas w h 0 0 CANVAS_WIDTH CANVAS_HEIGHT,
            SetImageSmoothingEnabled True]
      else [])"

definition applyPixelate :: "image option \<Rightarrow> image option \<Rightarrow> real \<Rightarrow> real \<Rightarrow> canvas_op list" where
  "applyPixelate beforeImg afterImg intensity t =
     (if beforeImg = None \<or> afterImg = None then []
      else
        let pixelSize = max 1 \<lfloor>(1 - \<bar>t * 2 - 1\<bar>) * 100 * intensity\<rfloor>
        in [ClearRect 0 0 CANVAS_WIDTH CANVAS_HEIGHT]
           @ (if t < 0.5 then drawImage beforeImg 1 @ pixelateResample pixelSize
              else drawImage afterImg 1 @ pixelateResample pixelSize))"

definition applyBlurTransition :: "image option \<Rightarrow> image option \<Rightarrow> real \<Rightarrow> real \<Rightarrow> canvas_op list" where
  "applyBlurTransition beforeImg afterImg intensity t =
     (if beforeImg = None \<or> afterImg = None then []
      else
        let blurAmount = sin (t * pi) * 20 * intensity
        in [ClearRect 0 0 CANVAS_WIDTH CANVAS_HEIGHT]
           @ [SetFilter (Blur blurAmount)]
           @ drawImage beforeImg (1 - t) @ drawImage afterImg t
           @ [SetFilter FilterNone])"

definition applyWaveDistortion :: "image option \<Rightarrow> image option \<Rightarrow> real \<Rightarrow> real \<Rightarrow> canvas_op list" where
  "applyWaveDistortion beforeImg afterImg intensity t =
     (if beforeImg = None \<or> afterImg = None then []
      else
        let amplitude = 30 * intensity;
            frequency = 10
        in [ClearRect 0 0 CANVAS_WIDTH CANVAS_HEIGHT]
           @ concat (map (\<lambda>k.
               let y = real (2 * k);
                   offset = sin ((y / CANVAS_HEIGHT) * frequency + t * pi * 2) * amplitude
               in [Save, BeginPath, Rect 0 y CANVAS_WIDTH 2, Clip, Translate offset 0]
                  @ drawImage (if t < 0.5 then beforeImg else afterImg) 1 @ [Restore]) [0..<960]))"

definition applyRipple :: "image option \<Rightarrow> image option \<Rightarrow> real \<Rightarrow> real \<Rightarrow> canvas_op list" where
  "applyRipple beforeImg afterImg intensity t =
     (if beforeImg = None \<or> afterImg = None then []
      else
        let centerX = CANVAS_WIDTH / 2;
            centerY = CANVAS_HEIGHT / 2;
            maxRadius = sqrt (CANVAS_WIDTH ^ 2 + CANVAS_HEIGHT ^ 2) / 2;
            rippleRadius = t * maxRadius
        in [ClearRect 0 0 CANVAS_WIDTH CANVAS_HEIGHT]
           @ drawImage beforeImg (1 - t) @ drawImage afterImg t
           @ concat (map (\<lambda>i.
               let r = rippleRadius - real i * 50
               in if r > 0 then
                    [BeginPath, Arc centerX centerY r 0 (pi * 2),
                     SetStrokeStyle (Rgba 255 255 255 ((1 - real i / 5) * intensity * 0.5)),
                     SetLineWidth 3, Stroke]
                  else []) [0..<5]))"

definition applySplitHorizontal :: "image option \<Rightarrow> image option \<Rightarrow> real \<Rightarrow> canvas_op list" where
  "applySplitHorizontal beforeImg afterImg t =
     (if beforeImg = None \<or> afterImg = None then []
      else
        let split = t * CANVAS_HEIGHT / 2
        in [ClearRect 0 0 CANVAS_WIDTH CANVAS_HEIGHT]
           @ [Save, Translate 0 (- split), BeginPath, Rect 0 0 CANVAS_WIDTH (CANVAS_HEIGHT / 2), Clip]
           @ drawImage beforeImg 1 @ [Restore]
           @ [Save, Translate 0 split, BeginPath,
              Rect 0 (CANVAS_HEIGHT / 2) CANVAS_WIDTH (CANVAS_HEIGHT / 2), Clip]
           @ drawImage beforeImg 1 @ [Restore]
           @ drawImage afterImg t)"

definition applySplitVertical :: "image option \<Rightarrow> image option \<Rightarrow> real \<Rightarrow> canvas_op list" where
  "applySplitVertical beforeImg afterImg t =
     (if beforeImg = None \<or> afterImg = None then []
      else
        let split = t * CANVAS_WIDTH / 2
        in [ClearRect 0 0 CANVAS_WIDTH CANVAS_HEIGHT]
           @ [Save, Translate (- split) 0, BeginPath, Rect 0 0 (CANVAS_WIDTH / 2) CANVAS_HEIGHT, Clip]
           @ drawImage beforeImg 1 @ [Restore]
           @ [Save, Translate split 0, BeginPath,
              Rect (CANVAS_WIDTH / 2) 0 (CANVAS_WIDTH / 2) CANVAS_HEIGHT, Clip]
           @ drawImage beforeImg 1 @ [Restore]
           @ drawImage afterImg t)"

definition applyFlipHorizontal :: "image option \<Rightarrow> image option \<Rightarrow> real \<Rightarrow> canvas_op list" where
  "applyFlipHorizontal beforeImg afterImg t =
     (if beforeImg = None \<or> afterImg = None then []
      else
        [ClearRect 0 0 CANVAS_WIDTH CANVAS_HEIGHT]
        @ [Save, Translate (CANVAS_WIDTH / 2) 0, Scale (cos (t * pi)) 1,
           Translate (- CANVAS_WIDTH / 2) 0]
        @ (if t < 0.5 then drawImage beforeImg 1 else drawImage afterImg 1)
        @ [Restore])"

definition applyFlipVertical :: "image option \<Rightarrow> image option \<Rightarrow> real \<Rightarrow> canvas_op list" where
  "applyFlipVertical beforeImg afterImg t =
     (if beforeImg = None \<or> afterImg = None then []
      else
        [ClearRect 0 0 CANVAS_WIDTH CANVAS_HEIGHT]
        @ [Save, Translate 0 (CANVAS_HEIGHT / 2), Scale 1 (cos (t * pi)),
           Translate 0 (- CANVAS_HEIGHT / 2)]
        @ (if t < 0.5 then drawImage beforeImg 1 else drawImage afterImg 1)
        @ [Restore])"

definition applyCheckerboard :: "image option \<Rightarrow> image option \<Rightarrow> real \<Rightarrow> canvas_op list" where
  "applyCheckerboard beforeImg afterImg t =
     (if beforeImg = None \<or> afterImg = None then []
      else
        let gridSize = 10 :: nat;
            cellWidth = CANVAS_WIDTH / real gridSize;
            cellHeight = CANVAS_HEIGHT / real gridSize
        in [ClearRect 0 0 CANVAS_WIDTH CANVAS_HEIGHT]
           @ drawImage beforeImg 1
           @ concat (map (\<lambda>i. concat (map (\<lambda>j.
               if (i + j) mod 2 = 0 then
                 let delay = (real (i + j) / real (gridSize * 2)) * 0.5;
                     cellT = max 0 (min 1 ((t - delay) * 2))
                 in if cellT > 0 then
                      [Save, BeginPath,
                       Rect (real i * cellWidth) (real j * cellHeight) cellWidth cellHeight, Clip]
                      @ drawImage afterImg cellT @ [Restore]
                    else []
               else []) [0..<gridSize])) [0..<gridSize]))"

definition applyRandomBlocks :: "image option \<Rightarrow> image option \<Rightarrow> real \<Rightarrow> canvas_op list" where
  "applyRandomBlocks beforeImg afterImg t =
     (if beforeImg = None \<or> afterImg = None then []
      else
        let gridSize = 15 :: nat;
            cellWidth = CANVAS_WIDTH / real gridSize;
            cellHeight = CANVAS_HEIGHT / real gridSize
        in [ClearRect 0 0 CANVAS_WIDTH CANVAS_HEIGHT]
           @ drawImage beforeImg 1
           @ concat (map (\<lambda>i. concat (map (\<lambda>j.
               let random = (sin (real i * 12.9898 + real j * 78.233) + 1) / 2;
                   delay = random * 0.5;
                   cellT = max 0 (min 1 ((t - delay) * 2))
               in if cellT > 0 then
                    [Save, BeginPath,
                     Rect (real i * cellWidth) (real j * cellHeight) cellWidth cellHeight, Clip]
                    @ drawImage afterImg cellT @ [Restore]
                  else []) [0..<gridSize])) [0..<gridSize]))"

definition applyVenetianBlinds :: "image option \<Rightarrow> image option \<Rightarrow> real \<Rightarrow> canvas_op list" where
  "applyVenetianBlinds beforeImg afterImg t =
     (if beforeImg = None \<or> afterImg = None then []
      else
        let blindCount = 20 :: nat;
            blindHeight = CANVAS_HEIGHT / real blindCount
        in [ClearRect 0 0 CANVAS_WIDTH CANVAS_HEIGHT]
           @ drawImage beforeImg 1
           @ concat (map (\<lambda>i.
               [Save, BeginPath, Rect 0 (real i * blindHeight) (CANVAS_WIDTH * t) blindHeight, Clip]
               @ drawImage afterImg 1 @ [Restore]) [0..<blindCount]))"

definition applySwirl :: "image option \<Rightarrow> image option \<Rightarrow> real \<Rightarrow> real \<Rightarrow> canvas_op list" where
  "applySwirl beforeImg afterImg intensity t =
     (if beforeImg = None \<or> afterImg = None then []
      else
        [ClearRect 0 0 CANVAS_WIDTH CANVAS_HEIGHT]
        @ [Save, Translate (CANVAS_WIDTH / 2) (CANVAS_HEIGHT / 2), Rotate (t * pi * 4 * intensity),
           Scale (1 - t * 0.5) (1 - t * 0.5),
           Translate (- CANVAS_WIDTH / 2) (- CANVAS_HEIGHT / 2)]
        @ drawImage beforeImg (1 - t) @ [Restore]
        @ [Save, Translate (CANVAS_WIDTH / 2) (CANVAS_HEIGHT / 2),
           Rotate ((t - 1) * pi * 4 * intensity),
           Scale (0.5 + t * 0.5) (0.5 + t * 0.5),
           Translate (- CANVAS_WIDTH / 2) (- CANVAS_HEIGHT / 2)]
        @ drawImage afterImg t @ [Restore])"

definition applyDiamondReveal :: "image option \<Rightarrow> image option \<Rightarrow> real \<Rightarrow> canvas_op list" where
  "applyDiamondReveal beforeImg afterImg t =
     (if beforeImg = None \<or> afterImg = None then []
      else
        let size = t * (CANVAS_WIDTH + CANVAS_HEIGHT)
        in [ClearRect 0 0 CANVAS_WIDTH CANVAS_HEIGHT]
           @ drawImage beforeImg 1
           @ [Save, BeginPath,
              MoveTo (CANVAS_WIDTH / 2) (CANVAS_HEIGHT / 2 - size / 2),
              LineTo (CANVAS_WIDTH / 2 + size / 2) (CANVAS_HEIGHT / 2),
              LineTo (CANVAS_WIDTH / 2) (CANVAS_HEIGHT / 2 + size / 2),
              LineTo (CANVAS_WIDTH / 2 - size / 2) (CANVAS_HEIGHT / 2),
              ClosePath, Clip]
           @ drawImage afterImg 1 @ [Restore])"

definition applyBounceIn :: "image option \<Rightarrow> image option \<Rightarrow> real \<Rightarrow> canvas_op list" where
  "applyBounceIn beforeImg afterImg t =
     (if beforeImg = None \<or> afterImg = None then []
      else
        let bounce = (if t < 0.5 then 2 * t * t else 1 - (- 2 * t + 2) ^ 2 / 2);
            scale = bounce
        in [ClearRect 0 0 CANVAS_WIDTH CANVAS_HEIGHT]
           @ drawImage beforeImg (1 - t)
           @ [Save, Translate (CANVAS_WIDTH / 2) (CANVAS_HEIGHT / 2), Scale scale scale,
              Translate (- CANVAS_WIDTH / 2) (- CANVAS_HEIGHT / 2)]
           @ drawImage afterImg t @ [Restore])"

definition applyElastic :: "image option \<Rightarrow> image option \<Rightarrow> real \<Rightarrow> canvas_op list" where
  "applyElastic beforeImg afterImg t =
     (if beforeImg = None \<or> afterImg = None then []
      else
        let elastic = (if t = 0 then 0 else if t = 1 then 1
                       else 2 powr (- 10 * t) * sin ((t * 10 - 0.75) * (2 * pi) / 3) + 1)
        in [ClearRect 0 0 CANVAS_WIDTH CANVAS_HEIGHT]
           @ drawImage beforeImg (1 - elastic) @ drawImage afterImg elastic)"

definition applyPageCurl :: "image option \<Rightarrow> image option \<Rightarrow> real \<Rightarrow> real \<Rightarrow> canvas_op list" where
  "applyPageCurl beforeImg afterImg intensity t =
     (if beforeImg = None \<or> afterImg = None then []
      else
        let curlWidth = (1 - t) * CANVAS_WIDTH;
            curlAmount = intensity * 200
        in [ClearRect 0 0 CANVAS_WIDTH CANVAS_HEIGHT]
           @ drawImage afterImg 1
           @ [Save, BeginPath, MoveTo (CANVAS_WIDTH - curlWidth) 0,
              QuadraticCurveTo (CANVAS_WIDTH - curlWidth / 2) curlAmount CANVAS_WIDTH 0,
              LineTo CANVAS_WIDTH CANVAS_HEIGHT,
              QuadraticCurveTo (CANVAS_WIDTH - curlWidth / 2) (CANVAS_HEIGHT - curlAmount)
                (CANVAS_WIDTH - curlWidth) CANVAS_HEIGHT,
              ClosePath, Clip]
           @ drawImage beforeImg 1 @ [Restore])"

definition applyKaleidoscope :: "image option \<Rightarrow> image option \<Rightarrow> real \<Rightarrow> canvas_op list" where
  "applyKaleidoscope beforeImg afterImg t =
     (if beforeImg = None \<or> afterImg = None then []
      else
        let segments = 8 :: nat
        in [ClearRect 0 0 CANVAS_WIDTH CANVAS_HEIGHT]
           @ concat (map (\<lambda>i.
               [Save, Translate (CANVAS_WIDTH / 2) (CANVAS_HEIGHT / 2),
                Rotate ((real i * pi * 2) / real segments + t * pi * 2), Scale t t,
                Translate (- CANVAS_WIDTH / 2) (- CANVAS_HEIGHT / 2)]
               @ drawImage (if t < 0.5 then beforeImg else afterImg) (1 / real segments)
               @ [Restore]) [0..<segments]))"

definition applyColorShift :: "image option \<Rightarrow> image option \<Rightarrow> real \<Rightarrow> real \<Rightarrow> canvas_op list" where
  "applyColorShift beforeImg afterImg intensity t =
     (if beforeImg = None \<or> afterImg = None then []
      else
        let hueRotate = t * 180 * intensity
        in [ClearRect 0 0 CANVAS_WIDTH CANVAS_HEIGHT]
           @ [SetFilter (HueRotate hueRotate)]
           @ drawImage beforeImg (1 - t)
           @ [SetFilter FilterNone]
           @ drawImage afterImg t)"

definition applyGradientWipe :: "image option \<Rightarrow> image option \<Rightarrow> real \<Rightarrow> canvas_op list" where
  "applyGradientWipe beforeImg afterImg t =
     (if beforeImg = None \<or> afterImg = None then []
      else
        let progress = t * 2;
            gradient = LinearGradient 0 0 CANVAS_WIDTH CANVAS_HEIGHT
                         [(max 0 (progress - 1), Rgba 0 0 0 1), (min 1 progress, Rgba 0 0 0 0)]
        in [ClearRect 0 0 CANVAS_WIDTH CANVAS_HEIGHT]
           @ drawImage beforeImg 1
           @ [Save, SetGlobalCompositeOperation DestinationOut, SetFillStyle (Grad gradient),
              FillRect 0 0 CANVAS_WIDTH CANVAS_HEIGHT, Restore]
           @ [SetGlobalCompositeOperation DestinationOver]
           @ drawImage afterImg 1
           @ [SetGlobalCompositeOperation SourceOver])"

definition applyZoomBlur :: "image option \<Rightarrow> image option \<Rightarrow> real \<Rightarrow> real \<Rightarrow> canvas_op list" where
  "applyZoomBlur beforeImg afterImg intensity t =
     (if beforeImg = None \<or> afterImg = None then []
      else
        let steps = 10 :: nat;
            maxScale = 1 + intensity * 0.5
        in [ClearRect 0 0 CANVAS_WIDTH CANVAS_HEIGHT]
           @ concat (map (\<lambda>i.
               let stepT = real i / real steps;
                   alpha = (1 - stepT) * 0.1;
                   scale = 1 + stepT * (maxScale - 1) * sin (t * pi)
               in [Save, SetGlobalAlpha alpha, Translate (CANVAS_WIDTH / 2) (CANVAS_HEIGHT / 2),
                   Scale scale scale, Translate (- CANVAS_WIDTH / 2) (- CANVAS_HEIGHT / 2)]
                  @ drawImage (if t < 0.5 then beforeImg else afterImg) 1
                  @ [Restore]) [0..<steps])
           @ drawImage (if t < 0.5 then beforeImg else afterImg) 1)"

text \<open>
  Shatter passes \<open>beforeImg\<close> to \<open>ctx.drawImage\<close> itself; behind the guard it is not null.
\<close>

definition applyShatter :: "image option \<Rightarrow> image option \<Rightarrow> real \<Rightarrow> real \<Rightarrow> canvas_op list" where
  "applyShatter beforeImg afterImg intensity t =
     (if beforeImg = None \<or> afterImg = None then []
      else
        let pieces = 20 :: nat
        in [ClearRect 0 0 CANVAS_WIDTH CANVAS_HEIGHT]
           @ drawImage afterImg 1
           @ concat (map (\<lambda>i.
               let x = real (i mod 5) * (CANVAS_WIDTH / 5);
                   y = real (i div 5) * (CANVAS_HEIGHT / 4);
                   w = CANVAS_WIDTH / 5;
                   h = CANVAS_HEIGHT / 4;
                   seedX = sin (real i * 12.9898) * 0.5;
                   seedY = sin (real i * 78.233) * 0.5;
                   seedRot = sin (real i * 43758.5453) * 0.5;
                   offsetX = seedX * 200 * t * intensity;
                   offsetY = seedY * 200 * t * intensity;
                   rotation = seedRot * pi * t
               in [Save, Translate (x + w / 2 + offsetX) (y + h / 2 + offsetY), Rotate rotation,
                   SetGlobalAlpha (1 - t),
                   DrawImageSub (the beforeImg) x y w h (- w / 2) (- h / 2) w h,
                   Restore]) [0..<pieces]))"

definition applyRadialWipe :: "image option \<Rightarrow> image option \<Rightarrow> real \<Rightarrow> canvas_op list" where
  "applyRadialWipe beforeImg afterImg t =
     (if beforeImg = None \<or> afterImg = None then []
      else
        let angle = t * pi * 2
        in [ClearRect 0 0 CANVAS_WIDTH CANVAS_HEIGHT]
           @ drawImage beforeImg 1
           @ [Save, BeginPath, MoveTo (CANVAS_WIDTH / 2) (CANVAS_HEIGHT / 2),
              Arc (CANVAS_WIDTH / 2) (CANVAS_HEIGHT / 2) (max CANVAS_WIDTH CANVAS_HEIGHT)
                (- pi / 2) (- pi / 2 + angle),
              ClosePath, Clip]
           @ drawImage afterImg 1 @ [Restore])"

definition applyDoorSwing :: "image option \<Rightarrow> image option \<Rightarrow> real \<Rightarrow> canvas_op list" where
  "applyDoorSwing beforeImg afterImg t =
     (if beforeImg = None \<or> afterImg = None then []
      else
        [ClearRect 0 0 CANVAS_WIDTH CANVAS_HEIGHT]
        @ drawImage afterImg 1
        @ [Save, Translate 0 (CANVAS_HEIGHT / 2), Scale (cos (t * pi / 2)) 1,
           Translate 0 (- CANVAS_HEIGHT / 2)]
        @ (if t < 1 then drawImage beforeImg 1 else [])
        @ [Restore])"

definition applyTwist :: "image option \<Rightarrow> image option \<Rightarrow> real \<Rightarrow> real \<Rightarrow> canvas_op list" where
  "applyTwist beforeImg afterImg intensity t =
     (if beforeImg = None \<or> afterImg = None then []
      else
        let slices = 50 :: nat;
            sliceHeight = CANVAS_HEIGHT / real slices
        in [ClearRect 0 0 CANVAS_WIDTH CANVAS_HEIGHT]
           @ concat (map (\<lambda>i.
               let y = real i * sliceHeight;
                   rotation = (real i / real slices - 0.5) * t * pi * intensity
               in [Save, Translate (CANVAS_WIDTH / 2) (y + sliceHeight / 2), Rotate rotation,
                   Translate (- CANVAS_WIDTH / 2) (- (y + sliceHeight / 2)),
                   BeginPath, Rect 0 y CANVAS_WIDTH sliceHeight, Clip]
                  @ drawImage (if t < 0.5 then beforeImg else afterImg) 1
                  @ [Restore]) [0..<slices]))"

definition applyFold :: "image option \<Rightarrow> image option \<Rightarrow> real \<Rightarrow> canvas_op list" where
  "applyFold beforeImg afterImg t =
     (if beforeImg = None \<or> afterImg = None then []
      else
        let foldT = (if t < 0.5 then t * 2 else 1);
            unfoldT = (if t \<ge> 0.5 then (t - 0.5) * 2 else 0)
        in [ClearRect 0 0 CANVAS_WIDTH CANVAS_HEIGHT]
           @ [Save, Translate (CANVAS_WIDTH / 2) 0, Scale (1 - foldT) 1,
              Translate (- CANVAS_WIDTH / 2) 0]
           @ drawImage beforeImg 1 @ [Restore]
           @ (if unfoldT > 0 then
                [Save, Translate (CANVAS_WIDTH / 2) 0, Scale unfoldT 1,
                 Translate (- CANVAS_WIDTH / 2) 0]
                @ drawImage afterImg 1 @ [Restore]
              else []))"

definition applyStarBurst :: "image option \<Rightarrow> image option \<Rightarrow> real \<Rightarrow> canvas_op list" where
  "applyStarBurst beforeImg afterImg t =
     (if beforeImg = None \<or> afterImg = None then []
      else
        let points = 12 :: nat;
            innerRadius = t * CANVAS_WIDTH * 0.3;
            outerRadius = t * CANVAS_WIDTH * 0.6
        in [ClearRect 0 0 CANVAS_WIDTH CANVAS_HEIGHT]
           @ drawImage beforeImg (1 - t)
           @ [Save, Translate (CANVAS_WIDTH / 2) (CANVAS_HEIGHT / 2)]
           @ concat (map (\<lambda>i.
               let angle = (real i * pi) / real points;
                   radius = (if i mod 2 = 0 then outerRadius else innerRadius);
                   x = cos angle * radius;
                   y = sin angle * radius
               in [SetFillStyle (Solid (Hsla ((real i / real points) * 360) 80 60 (t * 0.7))),
                   BeginPath, Arc x y 20 0 (pi * 2), Fill]) [0..<points * 2])
           @ [Restore]
           @ drawImage afterImg t)"

definition applyLiquid :: "image option \<Rightarrow> image option \<Rightarrow> real \<Rightarrow> real \<Rightarrow> canvas_op list" where
  "applyLiquid beforeImg afterImg intensity t =
     (if beforeImg = None \<or> afterImg = None then []
      else
        let rows = 20 :: nat;
            rowHeight = CANVAS_HEIGHT / real rows
        in [ClearRect 0 0 CANVAS_WIDTH CANVAS_HEIGHT]
           @ concat (map (\<lambda>i.
               let y = real i * rowHeight;
                   offset = sin (t * pi * 2 + real i * 0.5) * 50 * intensity
               in [Save, BeginPath, Rect 0 y CANVAS_WIDTH rowHeight, Clip, Translate offset 0]
                  @ drawImage (if t < 0.5 then beforeImg else afterImg) 1
                  @ [Restore]) [0..<rows]))"

definition applyCubeRotate :: "image option \<Rightarrow> image option \<Rightarrow> real \<Rightarrow> canvas_op list" where
  "applyCubeRotate beforeImg afterImg t =
     (if beforeImg = None \<or> afterImg = None then []
      else
        let angle = t * pi;
            scale = \<bar>cos angle\<bar>
        in [ClearRect 0 0 CANVAS_WIDTH CANVAS_HEIGHT]
           @ [Save, Translate (CANVAS_WIDTH / 2) (CANVAS_HEIGHT / 2), Scale scale 1,
              Translate (- CANVAS_WIDTH / 2) (- CANVAS_HEIGHT / 2)]
           @ (if cos angle > 0 then drawImage beforeImg 1 else drawImage afterImg 1)
           @ [Restore])"

definition applyMorph :: "image option \<Rightarrow> image option \<Rightarrow> real \<Rightarrow> real \<Rightarrow> canvas_op list" where
  "applyMorph beforeImg afterImg intensity t =
     (if beforeImg = None \<or> afterImg = None then []
      else
        let morphAmount = sin (t * pi) * intensity * 50
        in [ClearRect 0 0 CANVAS_WIDTH CANVAS_HEIGHT]
           @ [Save, Translate (CANVAS_WIDTH / 2) (CANVAS_HEIGHT / 2),
              Scale (1 + morphAmount / CANVAS_WIDTH) (1 + morphAmount / CANVAS_HEIGHT),
              Translate (- CANVAS_WIDTH / 2) (- CANVAS_HEIGHT / 2)]
           @ drawImage beforeImg (1 - t) @ [Restore]
           @ [Save, Translate (CANVAS_WIDTH / 2) (CANVAS_HEIGHT / 2),
              Scale (1 - morphAmount / CANVAS_WIDTH) (1 - morphAmount / CANVAS_HEIGHT),
              Translate (- CANVAS_WIDTH / 2) (- CANVAS_HEIGHT / 2)]
           @ drawImage afterImg t @ [Restore])"

definition applyGridFlip :: "image option \<Rightarrow> image option \<Rightarrow> real \<Rightarrow> canvas_op list" where
  "applyGridFlip beforeImg afterImg t =
     (if beforeImg = None \<or> afterImg = None then []
      else
        let gridSize = 5 :: nat;
            cellWidth = CANVAS_WIDTH / real gridSize;
            cellHeight = CANVAS_HEIGHT / real gridSize
        in [ClearRect 0 0 CANVAS_WIDTH CANVAS_HEIGHT]
           @ concat (map (\<lambda>i. concat (map (\<lambda>j.
               let cellT = max 0 (min 1 ((t - real (i + j) / real (gridSize * 2) * 0.5) * 2));
                   angle = cellT * pi
               in [Save,
                   Translate (real i * cellWidth + cellWidth / 2) (real j * cellHeight + cellHeight / 2),
                   Scale (cos angle) 1,
                   Translate (- (real i * cellWidth + cellWidth / 2))
                     (- (real j * cellHeight + cellHeight / 2)),
                   BeginPath,
                   Rect (real i * cellWidth) (real j * cellHeight) cellWidth cellHeight, Clip]
                  @ (if cos angle > 0 then drawImage beforeImg 1 else drawImage afterImg 1)
                  @ [Restore]) [0..<gridSize])) [0..<gridSize]))"

definition applySpotlight :: "image option \<Rightarrow> image option \<Rightarrow> real \<Rightarrow> real \<Rightarrow> canvas_op list" where
  "applySpotlight beforeImg afterImg intensity t =
     (if beforeImg = None \<or> afterImg = None then []
      else
        let radius = t * sqrt (CANVAS_WIDTH ^ 2 + CANVAS_HEIGHT ^ 2) / 2;
            x = CANVAS_WIDTH / 2;
            y = CANVAS_HEIGHT / 2;
            gradient = RadialGradient x y (radius * 0.7) x y radius
                         [(0, Rgba 255 255 255 0), (1, Rgba 255 255 255 (intensity * 0.3))]
        in [ClearRect 0 0 CANVAS_WIDTH CANVAS_HEIGHT]
           @ drawImage beforeImg 1
           @ [Save, BeginPath, Arc x y radius 0 (pi * 2), Clip]
           @ drawImage afterImg 1
           @ [SetFillStyle (Grad gradient), FillRect 0 0 CANVAS_WIDTH CANVAS_HEIGHT, Restore])"

definition applyVortex :: "image option \<Rightarrow> image option \<Rightarrow> real \<Rightarrow> real \<Rightarrow> canvas_op list" where
  "applyVortex beforeImg afterImg intensity t =
     (if beforeImg = None \<or> afterImg = None then []
      else
        let segments = 30 :: nat
        in [ClearRect 0 0 CANVAS_WIDTH CANVAS_HEIGHT]
           @ concat (map (\<lambda>i.
               let segmentT = real i / real segments;
                   rotation = t * pi * 6 * intensity * (1 - segmentT);
                   scale = 1 - t * segmentT
               in [Save, SetGlobalAlpha ((1 - segmentT) * 0.3),
                   Translate (CANVAS_WIDTH / 2) (CANVAS_HEIGHT / 2), Rotate rotation,
                   Scale scale scale, Translate (- CANVAS_WIDTH / 2) (- CANVAS_HEIGHT / 2)]
                  @ drawImage beforeImg 1
                  @ [Restore]) [0..<segments])
           @ drawImage afterImg t)"

subsection \<open>Dispatch by name\<close>

text \<open>
  \<open>getEffectFunction\<close> returns one of the fifty functions above; the value of this
  datatype names which. \<open>effectFn\<close> is the call \<open>effectFn(ctx, t)\<close> of the function so
  named, in a closure that holds \<open>intensity\<close>.
\<close>

datatype effect_fn =
  ApplyShockZoom | ApplyRGBGlitch | ApplyFilmBurn | ApplyParticleBurst | ApplyWipeReveal
  | ApplyVerticalWipe | ApplyCircularReveal | ApplyZoomIn | ApplyZoomOut | ApplySlideLeft
  | ApplySlideRight | ApplySlideUp | ApplySlideDown | ApplyFadeCross | ApplySpinClockwise
  | ApplySpinCounterClockwise | ApplyDiagonalWipe | ApplyBoxExpand | ApplyPixelate
  | ApplyBlurTransition | ApplyWaveDistortion | ApplyRipple | ApplySplitHorizontal
  | ApplySplitVertical | ApplyFlipHorizontal | ApplyFlipVertical | ApplyCheckerboard
  | ApplyRandomBlocks | ApplyVenetianBlinds | ApplySwirl | ApplyDiamondReveal | ApplyBounceIn
  | ApplyElastic | ApplyPageCurl | ApplyKaleidoscope | ApplyColorShift | ApplyGradientWipe
  | ApplyZoomBlur | ApplyShatter | ApplyRadialWipe | ApplyDoorSwing | ApplyTwist | ApplyFold
  | ApplyStarBurst | ApplyLiquid | ApplyCubeRotate | ApplyMorph | ApplyGridFlip
  | ApplySpotlight | ApplyVortex

fun effectFn ::
  "effect_fn \<Rightarrow> image option \<Rightarrow> image option \<Rightarrow> real \<Rightarrow> (nat \<Rightarrow> real) \<Rightarrow> real \<Rightarrow> canvas_op list" where
  "effectFn ApplyShockZoom b a i r t = applyShockZoom b a i t"
| "effectFn ApplyRGBGlitch b a i r t = applyRGBGlitch b a i t"
| "effectFn ApplyFilmBurn b a i r t = applyFilmBurn b a i r t"
| "effectFn ApplyParticleBurst b a i r t = applyParticleBurst b a i r t"
| "effectFn ApplyWipeReveal b a i r t = applyWipeReveal b a i t"
| "effectFn ApplyVerticalWipe b a i r t = applyVerticalWipe b a t"
| "effectFn ApplyCircularReveal b a i r t = applyCircularReveal b a t"
| "effectFn ApplyZoomIn b a i r t = applyZoomIn b a i t"
| "effectFn ApplyZoomOut b a i r t = applyZoomOut b a i t"
| "effectFn ApplySlideLeft b a i r t = applySlideLeft b a t"
| "effectFn ApplySlideRight b a i r t = applySlideRight b a t"
| "effectFn ApplySlideUp b a i r t = applySlideUp b a t"
| "effectFn ApplySlideDown b a i r t = applySlideDown b a t"
| "effectFn ApplyFadeCross b a i r t = applyFadeCross b a t"
| "effectFn ApplySpinClockwise b a i r t = applySpinClockwise b a i t"
| "effectFn ApplySpinCounterClockwise b a i r t = applySpinCounterClockwise b a i t"
| "effectFn ApplyDiagonalWipe b a i r t = applyDiagonalWipe b a t"
| "effectFn ApplyBoxExpand b a i r t = applyBoxExpand b a t"
| "effectFn ApplyPixelate b a i r t = applyPixelate b a i t"
| "effectFn ApplyBlurTransition b a i r t = applyBlurTransition b a i t"
| "effectFn ApplyWaveDistortion b a i r t = applyWaveDistortion b a i t"
| "effectFn ApplyRipple b a i r t = applyRipple b a i t"
| "effectFn ApplySplitHorizontal b a i r t = applySplitHorizontal b a t"
| "effectFn ApplySplitVertical b a i r t = applySplitVertical b a t"
| "effectFn ApplyFlipHorizontal b a i r t = applyFlipHorizontal b a t"
| "effectFn ApplyFlipVertical b a i r t = applyFlipVertical b a t"
| "effectFn ApplyCheckerboard b a i r t = applyCheckerboard b a t"
| "effectFn ApplyRandomBlocks b a i r t = applyRandomBlocks b a t"
| "effectFn ApplyVenetianBlinds b a i r t = applyVenetianBlinds b a t"
| "effectFn ApplySwirl b a i r t = applySwirl b a i t"
| "effectFn ApplyDiamondReveal b a i r t = applyDiamondReveal b a t"
| "effectFn ApplyBounceIn b a i r t = applyBounceIn b a t"
| "effectFn ApplyElastic b a i r t = applyElastic b a t"
| "effectFn ApplyPageCurl b a i r t = applyPageCurl b a i t"
| "effectFn ApplyKaleidoscope b a i r t = applyKaleidoscope b a t"
| "effectFn ApplyColorShift b a i r t = applyColorShift b a i t"
| "effectFn ApplyGradientWipe b a i r t = applyGradientWipe b a t"
| "effectFn ApplyZoomBlur b a i r t = applyZoomBlur b a i t"
| "effectFn ApplyShatter b a i r t = applyShatter b a i t"
| "effectFn ApplyRadialWipe b a i r t = applyRadialWipe b a t"
| "effectFn ApplyDoorSwing b a i r t = applyDoorSwing b a t"
| "effectFn ApplyTwist b a i r t = applyTwist b a i t"
| "effectFn ApplyFold b a i r t = applyFold b a t"
| "effectFn ApplyStarBurst b a i r t = applyStarBurst b a t"
| "effectFn ApplyLiquid b a i r t = applyLiquid b a i t"
| "effectFn ApplyCubeRotate b a i r t = applyCubeRotate b a t"
| "effectFn ApplyMorph b a i r t = applyMorph b a i t"
| "effectFn ApplyGridFlip b a i r t = applyGridFlip b a t"
| "effectFn ApplySpotlight b a i r t = applySpotlight b a i t"
| "effectFn ApplyVortex b a i r t = applyVortex b a i t"

definition getEffectFunction :: "string \<Rightarrow> effect_fn" where
  "getEffectFunction selectedEffect =
     (if selectedEffect = ''shockZoom'' then ApplyShockZoom
      else if selectedEffect = ''rgbGlitch'' then ApplyRGBGlitch
      else if selectedEffect = ''filmBurn'' then ApplyFilmBurn
      else if selectedEffect = ''particleBurst'' then ApplyParticleBurst
      else if selectedEffect = ''wipeReveal'' then ApplyWipeReveal
      else if selectedEffect = ''verticalWipe'' then ApplyVerticalWipe
      else if selectedEffect = ''circularReveal'' then ApplyCircularReveal
      else if selectedEffect = ''zoomIn'' then ApplyZoomIn
      else if selectedEffect = ''zoomOut'' then ApplyZoomOut
      else if selectedEffect = ''slideLeft'' then ApplySlideLeft
      else if selectedEffect = ''slideRight'' then ApplySlideRight
      else if selectedEffect = ''slideUp'' then ApplySlideUp
      else if selectedEffect = ''slideDown'' then ApplySlideDown
      else if selectedEffect = ''fadeCross'' then ApplyFadeCross
      else if selectedEffect = ''spinClockwise'' then ApplySpinClockwise
      else if selectedEffect = ''spinCounterClockwise'' then ApplySpinCounterClockwise
      else if selectedEffect = ''diagonalWipe'' then ApplyDiagonalWipe
      else if selectedEffect = ''boxExpand'' then ApplyBoxExpand
      else if selectedEffect = ''pixelate'' then ApplyPixelate
      else if selectedEffect = ''blurTransition'' then ApplyBlurTransition
      else if selectedEffect = ''waveDistortion'' then ApplyWaveDistortion
      else if selectedEffect = ''ripple'' then ApplyRipple
      else if selectedEffect = ''splitHorizontal'' then ApplySplitHorizontal
      else if selectedEffect = ''splitVertical'' then ApplySplitVertical
      else if selectedEffect = ''flipHorizontal'' then ApplyFlipHorizontal
      else if selectedEffect = ''flipVertical'' then ApplyFlipVertical
      else if selectedEffect = ''checkerboard'' then ApplyCheckerboard
      else if selectedEffect = ''randomBlocks'' then ApplyRandomBlocks
      else if selectedEffect = ''venetianBlinds'' then ApplyVenetianBlinds
      else if selectedEffect = ''swirl'' then ApplySwirl
      else if selectedEffect = ''diamondReveal'' then ApplyDiamondReveal
      else if selectedEffect = ''bounceIn'' then ApplyBounceIn
      else if selectedEffect = ''elastic'' then ApplyElastic
      else if selectedEffect = ''pageCurl'' then ApplyPageCurl
      else if selectedEffect = ''kaleidoscope'' then ApplyKaleidoscope
      else if selectedEffect = ''colorShift'' then ApplyColorShift
      else if selectedEffect = ''gradientWipe'' then ApplyGradientWipe
      else if selectedEffect = ''zoomBlur'' then ApplyZoomBlur
      else if selectedEffect = ''shatter'' then ApplyShatter
      else if selectedEffect = ''radialWipe'' then ApplyRadialWipe
      else if selectedEffect = ''doorSwing'' then ApplyDoorSwing
      else if selectedEffect = ''twist'' then ApplyTwist
      else if selectedEffect = ''fold'' then ApplyFold
      else if selectedEffect = ''starBurst'' then ApplyStarBurst
      else if selectedEffect = ''liquid'' then ApplyLiquid
      else if selectedEffect = ''cubeRotate'' then ApplyCubeRotate
      else if selectedEffect = ''morph'' then ApplyMorph
      else if selectedEffect = ''gridFlip'' then ApplyGridFlip
      else if selectedEffect = ''spotlight'' then ApplySpotlight
      else if selectedEffect = ''vortex'' then ApplyVortex
      else ApplyShockZoom)"

text \<open>The identifiers of the effect buttons, in the order the component lists them.\<close>

definition effectButtons :: "string list" where
  "effectButtons =
     [''shockZoom'', ''rgbGlitch'', ''filmBurn'', ''particleBurst'', ''wipeReveal'',
      ''verticalWipe'', ''circularReveal'', ''zoomIn'', ''zoomOut'', ''slideLeft'',
      ''slideRight'', ''slideUp'', ''slideDown'', ''fadeCross'', ''spinClockwise'',
      ''spinCounterClockwise'', ''diagonalWipe'', ''boxExpand'', ''pixelate'', ''blurTransition'',
      ''waveDistortion'', ''ripple'', ''splitHorizontal'', ''splitVertical'', ''flipHorizontal'',
      ''flipVertical'', ''checkerboard'', ''randomBlocks'', ''venetianBlinds'', ''swirl'',
      ''diamondReveal'', ''bounceIn'', ''elastic'', ''pageCurl'', ''kaleidoscope'',
      ''colorShift'', ''gradientWipe'', ''zoomBlur'', ''shatter'', ''radialWipe'',
      ''doorSwing'', ''twist'', ''fold'', ''starBurst'', ''liquid'',
      ''cubeRotate'', ''morph'', ''gridFlip'', ''spotlight'', ''vortex'']"

section \<open>The animation driver\<close>

text \<open>
  \<open>animate\<close> is created by \<open>useCallback\<close> with the dependencies
  \<open>[duration, selectedEffect, intensity]\<close>. The function object made in a render reads
  \<open>duration\<close> and, through that render's \<open>getEffectFunction\<close> and effect functions,
  \<open>selectedEffect\<close> and \<open>intensity\<close> from the scope of that render, where they are
  constants. \<open>useCallback\<close> hands out a new function object exactly when one of the three
  has changed, so the \<open>animate\<close> that a handler calls holds the current values. Inside the
  function body the name \<open>animate\<close> is the \<open>const animate\<close> of the render that created
  the function, that is the function itself: the callback \<open>() => animate(startTime)\<close>
  given to \<open>requestAnimationFrame\<close> re-enters the closure that scheduled it, also after
  later renders have made a new \<open>animate\<close>. A closure is modelled by the three values it
  holds. The image refs and the canvas ref are shared mutable cells and are read from
  the state at each call.
\<close>

record animate_closure =
  cl_duration :: real
  cl_selectedEffect :: string
  cl_intensity :: real

text \<open>One entry of the log of effect invocations: which function, in a closure of which
  intensity, called with which progress.\<close>

record effect_call =
  call_fn :: effect_fn
  call_intensity :: real
  call_t :: real

text \<open>
  The component state (\<open>useState\<close>), its refs (\<open>useRef\<close>; \<open>canvasMounted\<close> says that
  \<open>canvasRef.current\<close> is not null) and the part of the browser it acts on: the list of
  pending animation-frame callbacks (handle, start time, closure), the next handle to be
  issued, the notices shown by \<open>alert\<close>, and the surface. \<open>effectCalls\<close> logs the
  invocations of effect functions; the code keeps no such log, it is here to state
  properties of the calls.
\<close>

record tool_state =
  beforeImage :: "image option"
  afterImage :: "image option"
  selectedEffect :: string
  isPlaying :: bool
  duration :: real
  intensity :: real
  progress :: real
  canvasMounted :: bool
  beforeImageRef :: "image option"
  afterImageRef :: "image option"
  animationFrameRef :: "nat option"
  frameRequests :: "(nat \<times> int \<times> animate_closure) list"
  nextHandle :: nat
  alerts :: "string list"
  surface :: "canvas_op list"
  effectCalls :: "effect_call list"

definition initialState :: "real \<Rightarrow> real \<Rightarrow> tool_state" where
  "initialState defaultDuration defaultIntensity =
     \<lparr>beforeImage = None, afterImage = None, selectedEffect = ''shockZoom'', isPlaying = False,
      duration = defaultDuration, intensity = defaultIntensity, progress = 0,
      canvasMounted = True, beforeImageRef = None, afterImageRef = None,
      animationFrameRef = None, frameRequests = [], nextHandle = 1, alerts = [],
      surface = [], effectCalls = []\<rparr>"

definition currentAnimate :: "tool_state \<Rightarrow> animate_closure" where
  "currentAnimate s =
     \<lparr>cl_duration = duration s, cl_selectedEffect = selectedEffect s, cl_intensity = intensity s\<rparr>"

definition requestAnimationFrame :: "int \<Rightarrow> animate_closure \<Rightarrow> tool_state \<Rightarrow> nat \<times> tool_state" where
  "requestAnimationFrame startTime cl s =
     (nextHandle s,
      s\<lparr>frameRequests := frameRequests s @ [(nextHandle s, startTime, cl)],
        nextHandle := nextHandle s + 1\<rparr>)"

definition cancelAnimationFrame :: "nat \<Rightarrow> tool_state \<Rightarrow> tool_state" where
  "cancelAnimationFrame h s = s\<lparr>frameRequests := filter (\<lambda>r. fst r \<noteq> h) (frameRequests s)\<rparr>"

text \<open>
  The progress of a tick. For a duration of 0 JavaScript yields \<open>NaN\<close> or an infinity
  (and so ends the run with its first tick), which this real-valued expression does not;
  the statements below that speak of progress values are for durations other than 0
  (the slider offers 1 to 10).
\<close>

definition tickProgress :: "int \<Rightarrow> int \<Rightarrow> real \<Rightarrow> real" where
  "tickProgress startTime currentTime dur =
     (let elapsed = real_of_int (currentTime - startTime) / 1000
      in min (elapsed / dur) 1)"

definition animate ::
  "animate_closure \<Rightarrow> int \<Rightarrow> int \<Rightarrow> (nat \<Rightarrow> real) \<Rightarrow> tool_state \<Rightarrow> tool_state" where
  "animate cl startTime currentTime rnd s =
     (if \<not> canvasMounted s then s
      else
        let t = tickProgress startTime currentTime (cl_duration cl);
            s1 = s\<lparr>progress := t\<rparr>;
            fn = getEffectFunction (cl_selectedEffect cl);
            s2 = s1\<lparr>surface := surface s1
                      @ effectFn fn (beforeImageRef s1) (afterImageRef s1) (cl_intensity cl) rnd t,
                    effectCalls := effectCalls s1
                      @ [\<lparr>call_fn = fn, call_intensity = cl_intensity cl, call_t = t\<rparr>]\<rparr>
        in if t < 1 then
             let (h, s3) = requestAnimationFrame startTime cl s2
             in s3\<lparr>animationFrameRef := Some h\<rparr>
           else s2\<lparr>isPlaying := False\<rparr>)"

text \<open>\<open>if (animationFrameRef.current)\<close>: null and the handle 0 are falsy.\<close>

definition pendingHandle :: "tool_state \<Rightarrow> nat option" where
  "pendingHandle s =
     (case animationFrameRef s of None \<Rightarrow> None | Some h \<Rightarrow> if h = 0 then None else Some h)"

definition playAnimation :: "int \<Rightarrow> int \<Rightarrow> (nat \<Rightarrow> real) \<Rightarrow> tool_state \<Rightarrow> tool_state" where
  "playAnimation now now' rnd s =
     (if beforeImage s = None \<or> afterImage s = None then
        s\<lparr>alerts := alerts s @ [''Please upload both BEFORE and AFTER images'']\<rparr>
      else
        let s1 = (case pendingHandle s of None \<Rightarrow> s | Some h \<Rightarrow> cancelAnimationFrame h s);
            s2 = s1\<lparr>isPlaying := True\<rparr>;
            s3 = s2\<lparr>progress := 0\<rparr>
        in animate (currentAnimate s) now now' rnd s3)"

definition stopAnimation :: "tool_state \<Rightarrow> tool_state" where
  "stopAnimation s =
     (let s1 = (case pendingHandle s of None \<Rightarrow> s
                | Some h \<Rightarrow> (cancelAnimationFrame h s)\<lparr>animationFrameRef := None\<rparr>)
      in s1\<lparr>isPlaying := False\<rparr>)"

text \<open>The browser runs the oldest pending animation-frame callback, if there is one.\<close>

definition runFrame :: "int \<Rightarrow> (nat \<Rightarrow> real) \<Rightarrow> tool_state \<Rightarrow> tool_state" where
  "runFrame currentTime rnd s =
     (case frameRequests s of
        [] \<Rightarrow> s
      | (h, startTime, cl) # rest \<Rightarrow> animate cl startTime currentTime rnd (s\<lparr>frameRequests := rest\<rparr>))"

datatype slot = BeforeSlot | AfterSlot

datatype upload = NoFile | Loaded image | LoadFailed

definition handleImageUpload :: "upload \<Rightarrow> slot \<Rightarrow> tool_state \<Rightarrow> tool_state" where
  "handleImageUpload file type s =
     (case file of
        NoFile \<Rightarrow> s
      | Loaded img \<Rightarrow>
          (if type = BeforeSlot then s\<lparr>beforeImageRef := Some img, beforeImage := Some img\<rparr>
           else s\<lparr>afterImageRef := Some img, afterImage := Some img\<rparr>)
      | LoadFailed \<Rightarrow> s\<lparr>alerts := alerts s @ [''Failed to load image. Please try again.'']\<rparr>)"

text \<open>What can happen to a mounted component: the user's actions and the browser's frames.
  \<open>Play now now' rnd\<close> carries the two clock readings of \<open>playAnimation\<close> (the start time
  and the first tick's current time) and the random numbers of the first frame.\<close>

datatype event =
  Play int int "nat \<Rightarrow> real"
  | Stop
  | Frame int "nat \<Rightarrow> real"
  | SelectEffect string
  | ChangeDuration real
  | ChangeIntensity real
  | Upload upload slot

fun step :: "event \<Rightarrow> tool_state \<Rightarrow> tool_state" where
  "step (Play now now' rnd) s = playAnimation now now' rnd s"
| "step Stop s = stopAnimation s"
| "step (Frame currentTime rnd) s = runFrame currentTime rnd s"
| "step (SelectEffect e) s = s\<lparr>selectedEffect := e\<rparr>"
| "step (ChangeDuration d) s = s\<lparr>duration := d\<rparr>"
| "step (ChangeIntensity i) s = s\<lparr>intensity := i\<rparr>"
| "step (Upload file type) s = handleImageUpload file type s"

fun run :: "event list \<Rightarrow> tool_state \<Rightarrow> tool_state" where
  "run [] s = s"
| "run (e # es) s = run es (step e s)"

inductive reachable :: "tool_state \<Rightarrow> bool" where
  reachable_init: "reachable (initialState defaultDuration defaultIntensity)"
| reachable_step: "reachable s \<Longrightarrow> reachable (step e s)"

fun isPlay :: "event \<Rightarrow> bool" where
  "isPlay (Play now now' rnd) = True"
| "isPlay e = False"

text \<open>The one context call that reads the surface's own pixels.\<close>

fun readsSurface :: "canvas_op \<Rightarrow> bool" where
  "readsSurface (SampleSurfaceToTemp w h) = True"
| "readsSurface opn = False"

text \<open>
  The depth of the context's save stack after a list of calls, starting from depth \<open>d\<close>;
  \<open>None\<close> if a call translates, scales, rotates or clips outside every save/restore pair,
  or restores what was not saved. A frame with \<open>runDepth ops 0 = Some 0\<close> leaves the
  transform and the clipping region as it found them.
\<close>

fun ctxDepth :: "canvas_op \<Rightarrow> nat \<Rightarrow> nat option" where
  "ctxDepth Save d = Some (d + 1)"
| "ctxDepth Restore d = (if d = 0 then None else Some (d - 1))"
| "ctxDepth (Translate x y) d = (if d = 0 then None else Some d)"
| "ctxDepth (Scale x y) d = (if d = 0 then None else Some d)"
| "ctxDepth (Rotate x) d = (if d = 0 then None else Some d)"
| "ctxDepth Clip d = (if d = 0 then None else Some d)"
| "ctxDepth opn d = Some d"

fun runDepth :: "canvas_op list \<Rightarrow> nat \<Rightarrow> nat option" where
  "runDepth [] d = Some d"
| "runDepth (opn # ops) d = (case ctxDepth opn d of None \<Rightarrow> None | Some d' \<Rightarrow> runDepth ops d')"

definition img0 :: image where
  "img0 = \<lparr>img_width = 1080, img_height = 1920, img_src = ''before.png''\<rparr>"

definition img1 :: image where
  "img1 = \<lparr>img_width = 4000, img_height = 3000, img_src = ''after.png''\<rparr>"

text \<open>The driver keeps at most one animation-frame callback pending, and its handle is
  the one held in \<open>animationFrameRef\<close>.\<close>

definition atMostOnePending :: "tool_state \<Rightarrow> bool" where
  "atMostOnePending s =
     (canvasMounted s \<and> 0 < nextHandle s
      \<and> (case frameRequests s of
           [] \<Rightarrow> True
         | [r] \<Rightarrow> animationFrameRef s = Some (fst r) \<and> 0 < fst r
         | r # r' # rs \<Rightarrow> False))"

text \<open>Example inputs: a random source, and the component after both images were loaded.\<close>

definition rnd0 :: "nat \<Rightarrow> real" where
  "rnd0 = (\<lambda>k. 0)"

definition loadedState :: tool_state where
  "loadedState =
     run [Upload (Loaded img0) BeforeSlot, Upload (Loaded img1) AfterSlot] (initialState 3 (4 / 5))"

text \<open>A second random source.\<close>

definition rndHalf :: "nat \<Rightarrow> real" where
  "rndHalf = (\<lambda>k. 1 / 2)"

text \<open>A run: a play request, then the animation frames the browser delivers, each with its
  clock reading and its random numbers.\<close>

definition playRun ::
  "int \<Rightarrow> int \<Rightarrow> (nat \<Rightarrow> real) \<Rightarrow> (int \<times> (nat \<Rightarrow> real)) list \<Rightarrow> event list" where
  "playRun now now' rnd ticks = Play now now' rnd # map (\<lambda>(c, r). Frame c r) ticks"

text \<open>The effect invocations and the context calls of a run, as functions of the closure that
  the run was started with; the run ends with the first tick whose progress is not below 1.\<close>

fun runCalls :: "animate_closure \<Rightarrow> int \<Rightarrow> int list \<Rightarrow> effect_call list" where
  "runCalls cl start [] = []"
| "runCalls cl start (c # cs) =
     \<lparr>call_fn = getEffectFunction (cl_selectedEffect cl), call_intensity = cl_intensity cl,
      call_t = tickProgress start c (cl_duration cl)\<rparr>
     # (if tickProgress start c (cl_duration cl) < 1 then runCalls cl start cs else [])"

fun runFrames ::
  "animate_closure \<Rightarrow> image option \<Rightarrow> image option \<Rightarrow> int \<Rightarrow> (int \<times> (nat \<Rightarrow> real)) list
   \<Rightarrow> canvas_op list" where
  "runFrames cl b a start [] = []"
| "runFrames cl b a start ((c, r) # ticks) =
     effectFn (getEffectFunction (cl_selectedEffect cl)) b a (cl_intensity cl) r
       (tickProgress start c (cl_duration cl))
     @ (if tickProgress start c (cl_duration cl) < 1 then runFrames cl b a start ticks else [])"

text \<open>What a run does not change: the settings, the images and the image refs.\<close>

definition runSetup :: "tool_state \<Rightarrow> animate_closure \<times> image option \<times> image option \<times> image option \<times> image option" where
  "runSetup s = (currentAnimate s, beforeImage s, afterImage s, beforeImageRef s, afterImageRef s)"

section \<open>Properties of the effect library\<close>

lemmas effect_defs =
  applyShockZoom_def applyRGBGlitch_def applyFilmBurn_def applyParticleBurst_def
  applyWipeReveal_def applyVerticalWipe_def applyCircularReveal_def applyZoomIn_def
  applyZoomOut_def applySlideLeft_def applySlideRight_def applySlideUp_def applySlideDown_def
  applyFadeCross_def applySpinClockwise_def applySpinCounterClockwise_def applyDiagonalWipe_def
  applyBoxExpand_def applyPixelate_def applyBlurTransition_def applyWaveDistortion_def
  applyRipple_def applySplitHorizontal_def applySplitVertical_def applyFlipHorizontal_def
  applyFlipVertical_def applyCheckerboard_def applyRandomBlocks_def applyVenetianBlinds_def
  applySwirl_def applyDiamondReveal_def applyBounceIn_def applyElastic_def applyPageCurl_def
  applyKaleidoscope_def applyColorShift_def applyGradientWipe_def applyZoomBlur_def
  applyShatter_def applyRadialWipe_def applyDoorSwing_def applyTwist_def applyFold_def
  applyStarBurst_def applyLiquid_def applyCubeRotate_def applyMorph_def applyGridFlip_def
  applySpotlight_def applyVortex_def

text \<open>
  C4. Whichever of the fifty effect functions is invoked, and with whatever progress: if
  the before bitmap or the after bitmap is null, the function returns at its guard, having
  issued no call on the drawing context. (The guard is the first statement after reading
  the two refs, so nothing before it can throw.)
\<close>

theorem effect_absent_bitmap_noop:
  assumes "beforeImg = None \<or> afterImg = None"
  shows "effectFn fn beforeImg afterImg i rnd t = []"
  using assms by (cases fn) (simp_all add: effect_defs)

theorem effect_absent_bitmap_noop_witness:
  "(Some img0 = None \<or> (None :: image option) = None)
   \<and> effectFn ApplyVortex (Some img0) None (4 / 5) (\<lambda>k. 0) (1 / 2) = []"
  using effect_absent_bitmap_noop [of "Some img0" None ApplyVortex "4 / 5" "\<lambda>k. 0" "1 / 2"]
  by simp

lemma drawImage_no_read: "\<not> list_ex readsSurface (drawImage img alpha)"
  by (simp add: drawImage_def Let_def split: option.splits)

lemma list_ex_concat_map:
  "list_ex P (concat (map f xs)) = (\<exists>x \<in> set xs. list_ex P (f x))"
  by (induction xs) auto

lemma effect_clears_first:
  "beforeImg \<noteq> None \<Longrightarrow> afterImg \<noteq> None \<Longrightarrow>
   \<exists>rest. effectFn fn beforeImg afterImg i rnd t = ClearRect 0 0 1080 1920 # rest"
  by (cases fn) (simp_all add: effect_defs Let_def CANVAS_WIDTH_def CANVAS_HEIGHT_def)

lemma only_pixelate_reads:
  "fn \<noteq> ApplyPixelate \<Longrightarrow> \<not> list_ex readsSurface (effectFn fn b a i rnd t)"
  by (cases fn)
    (simp_all add: effect_defs Let_def drawImage_no_read list_ex_concat_map
       del: upt.simps upt_rec_numeral)

lemma pixelateResample_cases:
  "pixelateResample pixelSize = []
   \<or> (\<exists>w h. pixelateResample pixelSize =
         [SetImageSmoothingEnabled False, SampleSurfaceToTemp w h,
          DrawTempCanvas w h 0 0 1080 1920, SetImageSmoothingEnabled True])"
  by (simp add: pixelateResample_def Let_def CANVAS_WIDTH_def CANVAS_HEIGHT_def)

lemma pixelate_frame:
  assumes "b \<noteq> None" and "a \<noteq> None"
  shows "\<exists>rest. effectFn ApplyPixelate b a i rnd t =
           ClearRect 0 0 1080 1920 # drawImage (if t < 0.5 then b else a) 1 @ rest
         \<and> (rest = []
            \<or> (\<exists>w h. rest =
                  [SetImageSmoothingEnabled False, SampleSurfaceToTemp w h,
                   DrawTempCanvas w h 0 0 1080 1920, SetImageSmoothingEnabled True]))"
proof -
  define pixelSize where "pixelSize = max 1 \<lfloor>(1 - \<bar>t * 2 - 1\<bar>) * 100 * i\<rfloor>"
  have "effectFn ApplyPixelate b a i rnd t =
      ClearRect 0 0 1080 1920 # drawImage (if t < 0.5 then b else a) 1
        @ pixelateResample pixelSize"
    using assms unfolding pixelSize_def
    by (simp add: applyPixelate_def Let_def CANVAS_WIDTH_def CANVAS_HEIGHT_def)
  then show ?thesis
    using pixelateResample_cases [of pixelSize] by blast
qed

lemma pixelate_quarter:
  "effectFn ApplyPixelate (Some img0) (Some img1) (1 / 2) rnd0 (1 / 4) =
        ClearRect 0 0 1080 1920 # drawImage (Some img0) 1
          @ [SetImageSmoothingEnabled False, SampleSurfaceToTemp 43 76,
             DrawTempCanvas 43 76 0 0 1080 1920, SetImageSmoothingEnabled True]"
proof -
  have ps: "\<lfloor>(1 - \<bar>(1 / 4) * 2 - 1\<bar>) * 100 * (1 / 2 :: real)\<rfloor> = 25"
    by simp
  have w: "\<lfloor>1080 / (25 :: real)\<rfloor> = 43" and h: "\<lfloor>1920 / (25 :: real)\<rfloor> = 76"
    by simp_all
  have lt: "(1 / 4 :: real) < 0.5"
    by simp
  show ?thesis
    by (simp add: applyPixelate_def pixelateResample_def Let_def CANVAS_WIDTH_def
        CANVAS_HEIGHT_def ps w h lt)
qed

lemma runDepth_append:
  "runDepth (xs @ ys) d = (case runDepth xs d of None \<Rightarrow> None | Some d' \<Rightarrow> runDepth ys d')"
  by (induction xs arbitrary: d) (auto split: option.splits)

lemma runDepth_drawImage: "runDepth (drawImage img alpha) d = Some d"
  by (simp add: drawImage_def Let_def split: option.splits)

lemma runDepth_concat:
  assumes "\<And>x. x \<in> set xs \<Longrightarrow> runDepth (f x) d = Some d"
  shows "runDepth (concat (map f xs)) d = Some d"
  using assms by (induction xs) (simp_all add: runDepth_append)

lemma runDepth_concat2:
  assumes "\<And>x y. runDepth (f x y) d = Some d"
  shows "runDepth (concat (map (\<lambda>x. concat (map (f x) ys)) xs)) d = Some d"
  by (intro runDepth_concat) (simp add: assms)

lemma effect_balanced: "runDepth (effectFn fn b a i rnd t) 0 = Some 0"
  by (cases fn)
    (simp_all add: effect_defs Let_def pixelateResample_def runDepth_append runDepth_drawImage
       runDepth_concat runDepth_concat2 del: upt.simps upt_rec_numeral)

text \<open>
  C8. With both bitmaps present, the first context call of every effect function is
  \<open>clearRect(0, 0, 1080, 1920)\<close>. Every effect changes the transform and the clipping
  region only between a save and its restore, so the next frame's \<open>clearRect\<close> finds them
  untouched and clears the whole surface. No effect other than pixelate issues a call that
  reads the surface. Pixelate clears, draws the before image (progress below one half) or
  the after image, and after that either does nothing more or copies the surface into a
  temporary canvas and draws that copy back over the whole surface.
\<close>

theorem effect_repaints_surface:
  assumes "beforeImg \<noteq> None" and "afterImg \<noteq> None"
  shows "(\<exists>rest. effectFn fn beforeImg afterImg i rnd t = ClearRect 0 0 1080 1920 # rest)
    \<and> runDepth (effectFn fn beforeImg afterImg i rnd t) 0 = Some 0
    \<and> (fn \<noteq> ApplyPixelate \<longrightarrow> \<not> list_ex readsSurface (effectFn fn beforeImg afterImg i rnd t))
    \<and> (\<exists>rest. effectFn ApplyPixelate beforeImg afterImg i rnd t =
           ClearRect 0 0 1080 1920 # drawImage (if t < 0.5 then beforeImg else afterImg) 1 @ rest
         \<and> (rest = []
            \<or> (\<exists>w h. rest =
                  [SetImageSmoothingEnabled False, SampleSurfaceToTemp w h,
                   DrawTempCanvas w h 0 0 1080 1920, SetImageSmoothingEnabled True])))"
proof (intro conjI impI)
  show "\<exists>rest. effectFn fn beforeImg afterImg i rnd t = ClearRect 0 0 1080 1920 # rest"
    using assms by (rule effect_clears_first)
next
  show "runDepth (effectFn fn beforeImg afterImg i rnd t) 0 = Some 0"
    by (rule effect_balanced)
next
  assume "fn \<noteq> ApplyPixelate"
  then show "\<not> list_ex readsSurface (effectFn fn beforeImg afterImg i rnd t)"
    by (rule only_pixelate_reads)
next
  show "\<exists>rest. effectFn ApplyPixelate beforeImg afterImg i rnd t =
           ClearRect 0 0 1080 1920 # drawImage (if t < 0.5 then beforeImg else afterImg) 1 @ rest
         \<and> (rest = []
            \<or> (\<exists>w h. rest =
                  [SetImageSmoothingEnabled False, SampleSurfaceToTemp w h,
                   DrawTempCanvas w h 0 0 1080 1920, SetImageSmoothingEnabled True]))"
    using assms by (rule pixelate_frame)
qed

theorem effect_repaints_surface_witness:
  "Some img0 \<noteq> None \<and> Some img1 \<noteq> None
   \<and> ApplyFadeCross \<noteq> ApplyPixelate
   \<and> (\<exists>rest. effectFn ApplyFadeCross (Some img0) (Some img1) (4 / 5) rnd0 (1 / 4)
          = ClearRect 0 0 1080 1920 # rest)
   \<and> runDepth (effectFn ApplyFadeCross (Some img0) (Some img1) (4 / 5) rnd0 (1 / 4)) 0 = Some 0
   \<and> \<not> list_ex readsSurface (effectFn ApplyFadeCross (Some img0) (Some img1) (4 / 5) rnd0 (1 / 4))
   \<and> effectFn ApplyPixelate (Some img0) (Some img1) (1 / 2) rnd0 (1 / 4) =
        ClearRect 0 0 1080 1920 # drawImage (Some img0) 1
          @ [SetImageSmoothingEnabled False, SampleSurfaceToTemp 43 76,
             DrawTempCanvas 43 76 0 0 1080 1920, SetImageSmoothingEnabled True]"
proof -
  have ne: "Some img0 \<noteq> None" "Some img1 \<noteq> None"
    by simp_all
  have pf: "ApplyFadeCross \<noteq> ApplyPixelate"
    by simp
  note a = effect_repaints_surface [OF ne, of ApplyFadeCross "4 / 5" rnd0 "1 / 4"]
  note c1 = a [THEN conjunct1]
  note c2 = a [THEN conjunct2, THEN conjunct1]
  note c3 = a [THEN conjunct2, THEN conjunct2, THEN conjunct1, THEN mp, OF pf]
  show ?thesis
    by (rule conjI [OF ne(1) conjI [OF ne(2) conjI [OF pf conjI [OF c1 conjI [OF c2
          conjI [OF c3 pixelate_quarter]]]]]])
qed

section \<open>Properties of the dispatch\<close>

lemma dispatch_distinct: "distinct (map getEffectFunction effectButtons)"
  by (simp add: effectButtons_def getEffectFunction_def)

lemma dispatch_default:
  assumes "e \<notin> set effectButtons"
  shows "getEffectFunction e = ApplyShockZoom"
  using assms by (simp add: effectButtons_def getEffectFunction_def)

lemma buttons_distinct: "length effectButtons = 50 \<and> distinct effectButtons"
  by (simp add: effectButtons_def)

text \<open>
  C10. The component offers fifty effect buttons with pairwise different identifiers, which
  \<open>getEffectFunction\<close> maps to fifty different functions. For every other value of the
  selection string, \<open>getEffectFunction\<close> falls through to its default and returns
  \<open>applyShockZoom\<close>: the frame drawn is the Shock Zoom frame.
\<close>

theorem getEffectFunction_default:
  assumes "e \<notin> set effectButtons"
  shows "getEffectFunction e = ApplyShockZoom
    \<and> effectFn (getEffectFunction e) b a i rnd t = applyShockZoom b a i t
    \<and> length effectButtons = 50 \<and> distinct effectButtons
    \<and> distinct (map getEffectFunction effectButtons)"
proof -
  have d: "getEffectFunction e = ApplyShockZoom"
    using assms by (rule dispatch_default)
  have f: "effectFn (getEffectFunction e) b a i rnd t = applyShockZoom b a i t"
    unfolding d by simp
  show ?thesis
    using d f buttons_distinct dispatch_distinct by blast
qed

theorem getEffectFunction_default_witness:
  "''sparkle'' \<notin> set effectButtons \<and> getEffectFunction ''sparkle'' = ApplyShockZoom"
proof -
  have h: "''sparkle'' \<notin> set effectButtons"
    by (simp add: effectButtons_def)
  show ?thesis
    using h getEffectFunction_default [OF h] by blast
qed

section \<open>Properties of the animation driver\<close>

lemma atMostOnePending_iff:
  "atMostOnePending s =
     (canvasMounted s \<and> 0 < nextHandle s
      \<and> (frameRequests s = []
         \<or> (\<exists>h startTime cl. frameRequests s = [(h, startTime, cl)]
               \<and> animationFrameRef s = Some h \<and> 0 < h)))"
  by (auto simp: atMostOnePending_def split: list.splits)

lemma animate_tick:
  assumes "canvasMounted s"
  shows "animate cl startTime currentTime rnd s =
     (let t = tickProgress startTime currentTime (cl_duration cl);
          fn = getEffectFunction (cl_selectedEffect cl);
          s2 = s\<lparr>progress := t,
                 surface := surface s
                   @ effectFn fn (beforeImageRef s) (afterImageRef s) (cl_intensity cl) rnd t,
                 effectCalls := effectCalls s
                   @ [\<lparr>call_fn = fn, call_intensity = cl_intensity cl, call_t = t\<rparr>]\<rparr>
      in if t < 1 then
           s2\<lparr>frameRequests := frameRequests s @ [(nextHandle s, startTime, cl)],
              nextHandle := nextHandle s + 1, animationFrameRef := Some (nextHandle s)\<rparr>
         else s2\<lparr>isPlaying := False\<rparr>)"
  using assms by (simp add: animate_def Let_def requestAnimationFrame_def)

lemma animate_pending:
  assumes "canvasMounted s" and "0 < nextHandle s" and "frameRequests s = []"
  shows "atMostOnePending (animate cl startTime currentTime rnd s)"
  using assms by (simp add: animate_tick Let_def atMostOnePending_iff)

lemma cancel_pending:
  assumes "atMostOnePending s" and "pendingHandle s = Some h"
  shows "frameRequests (cancelAnimationFrame h s) = []"
  using assms
  by (auto simp: atMostOnePending_iff pendingHandle_def cancelAnimationFrame_def
      split: option.splits if_splits)

lemma pending_none:
  assumes "atMostOnePending s" and "pendingHandle s = None"
  shows "frameRequests s = []"
  using assms
  by (auto simp: atMostOnePending_iff pendingHandle_def split: option.splits if_splits)

lemma playAnimation_pending:
  assumes "atMostOnePending s"
  shows "atMostOnePending (playAnimation now now' rnd s)"
proof (cases "beforeImage s = None \<or> afterImage s = None")
  case True
  then show ?thesis
    using assms by (simp add: playAnimation_def atMostOnePending_iff)
next
  case False
  define s1 where "s1 = (case pendingHandle s of None \<Rightarrow> s | Some h \<Rightarrow> cancelAnimationFrame h s)"
  have e: "frameRequests s1 = []"
    using assms cancel_pending pending_none
    by (cases "pendingHandle s") (simp_all add: s1_def)
  have c: "canvasMounted s1" and n: "0 < nextHandle s1"
    using assms
    by (cases "pendingHandle s"; simp add: s1_def atMostOnePending_iff cancelAnimationFrame_def)+
  have "playAnimation now now' rnd s
      = animate (currentAnimate s) now now' rnd (s1\<lparr>isPlaying := True, progress := 0\<rparr>)"
    using False by (auto simp: playAnimation_def s1_def Let_def)
  then show ?thesis
    using animate_pending [of "s1\<lparr>isPlaying := True, progress := 0\<rparr>"] e c n by simp
qed

lemma stopAnimation_pending:
  assumes "atMostOnePending s"
  shows "frameRequests (stopAnimation s) = [] \<and> atMostOnePending (stopAnimation s)"
proof (cases "pendingHandle s")
  case None
  then show ?thesis
    using assms pending_none [OF assms None]
    by (simp add: stopAnimation_def atMostOnePending_iff)
next
  case (Some h)
  then show ?thesis
    using assms cancel_pending [OF assms Some]
    by (simp add: stopAnimation_def atMostOnePending_iff cancelAnimationFrame_def)
qed

lemma runFrame_pending:
  assumes "atMostOnePending s"
  shows "atMostOnePending (runFrame currentTime rnd s)"
proof (cases "frameRequests s")
  case Nil
  then show ?thesis
    using assms by (simp add: runFrame_def)
next
  case (Cons r rest)
  obtain h startTime cl where r: "r = (h, startTime, cl)"
    by (cases r) auto
  have rest: "rest = []"
    using assms Cons by (auto simp: atMostOnePending_iff)
  have "runFrame currentTime rnd s = animate cl startTime currentTime rnd (s\<lparr>frameRequests := []\<rparr>)"
    using Cons r rest by (simp add: runFrame_def)
  then show ?thesis
    using animate_pending [of "s\<lparr>frameRequests := []\<rparr>"] assms
    by (simp add: atMostOnePending_iff)
qed

lemma step_pending:
  assumes "atMostOnePending s"
  shows "atMostOnePending (step e s)"
proof (cases e)
  case (Play now now' rnd)
  then show ?thesis using assms playAnimation_pending by simp
next
  case Stop
  then show ?thesis using assms stopAnimation_pending by simp
next
  case (Frame c rnd)
  then show ?thesis using assms runFrame_pending by simp
next
  case (Upload f ty)
  then show ?thesis
    using assms by (cases f) (simp_all add: handleImageUpload_def atMostOnePending_iff)
qed (use assms in \<open>simp_all add: atMostOnePending_iff\<close>)

lemma reachable_pending: "reachable s \<Longrightarrow> atMostOnePending s"
proof (induction rule: reachable.induct)
  case (reachable_init defaultDuration defaultIntensity)
  show ?case by (simp add: atMostOnePending_iff initialState_def)
next
  case (reachable_step s e)
  then show ?case by (simp add: step_pending)
qed

lemma reachable_run: "reachable s \<Longrightarrow> reachable (run es s)"
  by (induction es arbitrary: s) (simp_all add: reachable_step)

lemma quiet_step:
  assumes "frameRequests s = []" and "\<not> isPlay e"
  shows "frameRequests (step e s) = [] \<and> surface (step e s) = surface s
    \<and> effectCalls (step e s) = effectCalls s"
proof (cases e)
  case (Upload f ty)
  then show ?thesis
    using assms by (cases f) (simp_all add: handleImageUpload_def)
next
  case Stop
  then show ?thesis
    using assms
    by (simp add: stopAnimation_def cancelAnimationFrame_def split: option.splits)
qed (use assms in \<open>simp_all add: runFrame_def\<close>)

lemma quiet_run:
  assumes "frameRequests s = []" and "\<forall>e \<in> set es. \<not> isPlay e"
  shows "frameRequests (run es s) = [] \<and> surface (run es s) = surface s
    \<and> effectCalls (run es s) = effectCalls s"
  using assms
proof (induction es arbitrary: s)
  case Nil
  then show ?case by simp
next
  case (Cons e es)
  then have q: "frameRequests (step e s) = [] \<and> surface (step e s) = surface s
      \<and> effectCalls (step e s) = effectCalls s"
    using quiet_step [of s e] by simp
  then show ?case
    using Cons.IH [of "step e s"] Cons.prems by simp
qed

lemma stopAnimation_surface:
  "surface (stopAnimation s) = surface s \<and> effectCalls (stopAnimation s) = effectCalls s
   \<and> \<not> isPlaying (stopAnimation s)"
  by (simp add: stopAnimation_def cancelAnimationFrame_def split: option.splits)

text \<open>
  C6. In every state the component can reach, \<open>stopAnimation\<close> leaves no animation-frame
  callback pending and sets \<open>isPlaying\<close> to false, without touching the surface. Whatever
  happens afterwards short of a play request (frames of the browser, changes of the
  settings, uploads, further stop requests), no callback becomes pending, no effect
  function is invoked and the surface stays as it was.
\<close>

theorem stopAnimation_halts:
  assumes "reachable s" and "\<forall>e \<in> set es. \<not> isPlay e"
  shows "\<not> isPlaying (stopAnimation s)
    \<and> frameRequests (stopAnimation s) = []
    \<and> surface (stopAnimation s) = surface s
    \<and> frameRequests (run es (stopAnimation s)) = []
    \<and> surface (run es (stopAnimation s)) = surface s
    \<and> effectCalls (run es (stopAnimation s)) = effectCalls s"
proof -
  have e: "frameRequests (stopAnimation s) = []"
    using stopAnimation_pending [OF reachable_pending [OF assms(1)]] by simp
  show ?thesis
    using e quiet_run [OF e assms(2)] stopAnimation_surface [of s] by simp
qed


lemmas driver_defs =
  playAnimation_def stopAnimation_def runFrame_def animate_def requestAnimationFrame_def
  cancelAnimationFrame_def pendingHandle_def currentAnimate_def tickProgress_def
  handleImageUpload_def initialState_def Let_def

lemma loadedState_eq:
  "loadedState =
     \<lparr>beforeImage = Some img0, afterImage = Some img1, selectedEffect = ''shockZoom'',
      isPlaying = False, duration = 3, intensity = 4 / 5, progress = 0, canvasMounted = True,
      beforeImageRef = Some img0, afterImageRef = Some img1, animationFrameRef = None,
      frameRequests = [], nextHandle = 1, alerts = [], surface = [], effectCalls = []\<rparr>"
  by (simp add: loadedState_def driver_defs)

lemma loadedState_reachable: "reachable loadedState"
  unfolding loadedState_def by (rule reachable_run) (rule reachable_init)

theorem stopAnimation_halts_witness:
  "reachable (step (Play 0 0 rnd0) loadedState)
   \<and> \<not> isPlay (Frame 500 rnd0) \<and> \<not> isPlay (SelectEffect ''vortex'')
   \<and> \<not> isPlay (Frame 1000 rnd0)
   \<and> isPlaying (step (Play 0 0 rnd0) loadedState)
   \<and> frameRequests (step (Play 0 0 rnd0) loadedState)
       = [(1, 0, \<lparr>cl_duration = 3, cl_selectedEffect = ''shockZoom'', cl_intensity = 4 / 5\<rparr>)]
   \<and> \<not> isPlaying (stopAnimation (step (Play 0 0 rnd0) loadedState))
   \<and> frameRequests (stopAnimation (step (Play 0 0 rnd0) loadedState)) = []
   \<and> surface (run [Frame 500 rnd0, SelectEffect ''vortex'', Frame 1000 rnd0]
        (stopAnimation (step (Play 0 0 rnd0) loadedState)))
       = surface (step (Play 0 0 rnd0) loadedState)"
proof -
  have r: "reachable (step (Play 0 0 rnd0) loadedState)"
    using loadedState_reachable by (rule reachable_step)
  have q: "\<forall>e \<in> set [Frame 500 rnd0, SelectEffect ''vortex'', Frame 1000 rnd0]. \<not> isPlay e"
    by simp
  have p: "isPlaying (step (Play 0 0 rnd0) loadedState)
    \<and> frameRequests (step (Play 0 0 rnd0) loadedState)
       = [(1, 0, \<lparr>cl_duration = 3, cl_selectedEffect = ''shockZoom'', cl_intensity = 4 / 5\<rparr>)]"
    by (simp add: loadedState_eq driver_defs)
  show ?thesis
    using stopAnimation_halts [OF r q] r q p by simp
qed

text \<open>
  C1. If \<open>playAnimation\<close> is called while the before image or the after image is missing,
  it shows one notice and returns: the state is the one before with that notice added.
  In particular \<open>isPlaying\<close> and \<open>progress\<close> keep their values, no animation-frame callback
  is requested, and nothing is drawn.
\<close>

theorem playAnimation_missing_input:
  assumes "beforeImage s = None \<or> afterImage s = None"
  shows "playAnimation now now' rnd s
           = s\<lparr>alerts := alerts s @ [''Please upload both BEFORE and AFTER images'']\<rparr>
    \<and> length (alerts (playAnimation now now' rnd s)) = length (alerts s) + 1
    \<and> isPlaying (playAnimation now now' rnd s) = isPlaying s
    \<and> progress (playAnimation now now' rnd s) = progress s
    \<and> frameRequests (playAnimation now now' rnd s) = frameRequests s
    \<and> animationFrameRef (playAnimation now now' rnd s) = animationFrameRef s
    \<and> surface (playAnimation now now' rnd s) = surface s
    \<and> effectCalls (playAnimation now now' rnd s) = effectCalls s"
  using assms by (simp add: playAnimation_def)

theorem playAnimation_missing_input_witness:
  "(beforeImage (step (Upload (Loaded img0) BeforeSlot) (initialState 3 (4 / 5))) = None
     \<or> afterImage (step (Upload (Loaded img0) BeforeSlot) (initialState 3 (4 / 5))) = None)
   \<and> alerts (playAnimation 0 0 rnd0 (step (Upload (Loaded img0) BeforeSlot) (initialState 3 (4 / 5))))
       = [''Please upload both BEFORE and AFTER images'']
   \<and> \<not> isPlaying (playAnimation 0 0 rnd0 (step (Upload (Loaded img0) BeforeSlot) (initialState 3 (4 / 5))))
   \<and> progress (playAnimation 0 0 rnd0 (step (Upload (Loaded img0) BeforeSlot) (initialState 3 (4 / 5)))) = 0
   \<and> frameRequests (playAnimation 0 0 rnd0 (step (Upload (Loaded img0) BeforeSlot) (initialState 3 (4 / 5)))) = []"
proof -
  have h: "beforeImage (step (Upload (Loaded img0) BeforeSlot) (initialState 3 (4 / 5))) = None
     \<or> afterImage (step (Upload (Loaded img0) BeforeSlot) (initialState 3 (4 / 5))) = None"
    by (simp add: handleImageUpload_def initialState_def)
  show ?thesis
    using playAnimation_missing_input [OF h, of 0 0 rnd0]
    by (simp add: handleImageUpload_def initialState_def)
qed

lemma tickProgress_le_1: "tickProgress startTime currentTime d \<le> 1"
  by (simp add: tickProgress_def Let_def)

lemma getEffectFunction_fadeCross: "getEffectFunction ''fadeCross'' = ApplyFadeCross"
  by (simp add: getEffectFunction_def)

text \<open>
  C5. The example of the specification: both images loaded, effect \<open>fadeCross\<close>, duration
  2 s, intensity 0.8, play. The frame delivered 1000 ms after the start has progress 0.5
  and consists of clearing the whole surface, drawing the before image with global alpha
  0.5 and then, over it, the after image with global alpha 0.5.
\<close>

theorem fadeCross_half_way:
  "let s0 = run [Upload (Loaded b) BeforeSlot, Upload (Loaded a) AfterSlot,
                 SelectEffect ''fadeCross'', ChangeDuration 2, ChangeIntensity (4 / 5),
                 Play now now r0] (initialState d0 i0);
       s1 = step (Frame (now + 1000) r1) s0
   in isPlaying s0
      \<and> progress s1 = 1 / 2
      \<and> last (effectCalls s1) = \<lparr>call_fn = ApplyFadeCross, call_intensity = 4 / 5, call_t = 1 / 2\<rparr>
      \<and> surface s1 = surface s0
          @ (ClearRect 0 0 1080 1920 # drawImage (Some b) (1 / 2) @ drawImage (Some a) (1 / 2))"
  by (simp add: driver_defs getEffectFunction_fadeCross applyFadeCross_def
        CANVAS_WIDTH_def CANVAS_HEIGHT_def)

theorem fadeCross_half_way_witness:
  "surface (run [Upload (Loaded img0) BeforeSlot, Upload (Loaded img1) AfterSlot,
                 SelectEffect ''fadeCross'', ChangeDuration 2, ChangeIntensity (4 / 5),
                 Play 0 0 rnd0, Frame 1000 rnd0] (initialState 3 (4 / 5)))
   = surface (run [Upload (Loaded img0) BeforeSlot, Upload (Loaded img1) AfterSlot,
                 SelectEffect ''fadeCross'', ChangeDuration 2, ChangeIntensity (4 / 5),
                 Play 0 0 rnd0] (initialState 3 (4 / 5)))
     @ [ClearRect 0 0 1080 1920,
        Save, SetGlobalAlpha (1 / 2), DrawImage img0 0 0 1080 1920, Restore,
        Save, SetGlobalAlpha (1 / 2), DrawImage img1 (- 740) 0 2560 1920, Restore]"
proof -
  have d0: "drawImage (Some img0) (1 / 2)
      = [Save, SetGlobalAlpha (1 / 2), DrawImage img0 0 0 1080 1920, Restore]"
    by (simp add: drawImage_def img0_def CANVAS_WIDTH_def CANVAS_HEIGHT_def Let_def)
  have d1: "drawImage (Some img1) (1 / 2)
      = [Save, SetGlobalAlpha (1 / 2), DrawImage img1 (- 740) 0 2560 1920, Restore]"
    by (simp add: drawImage_def img1_def CANVAS_WIDTH_def CANVAS_HEIGHT_def Let_def)
  show ?thesis
    using fadeCross_half_way [of img0 img1 0 rnd0 3 "4 / 5" rnd0]
    by (simp add: Let_def d0 d1)
qed

text \<open>
  C3 does not hold of the code. The frame callback re-enters the closure that scheduled it,
  and that closure holds the settings of the render in which the run was started. Here a
  run is started with \<open>fadeCross\<close>, duration 2 and intensity 0.8; then, while it is
  running, the user selects \<open>vortex\<close>, duration 4 and intensity 0.2. The next frame, 1000 ms
  after the start, is still the \<open>fadeCross\<close> frame of intensity 0.8 at progress 0.5, not the
  \<open>vortex\<close> frame of intensity 0.2 at progress 0.25.
\<close>

theorem settings_change_mid_run_ignored:
  "let s0 = run [SelectEffect ''fadeCross'', ChangeDuration 2, Play 0 0 rnd0] loadedState;
       s1 = run [SelectEffect ''vortex'', ChangeDuration 4, ChangeIntensity (1 / 5)] s0;
       s2 = step (Frame 1000 rnd0) s1
   in isPlaying s1 \<and> selectedEffect s1 = ''vortex'' \<and> duration s1 = 4 \<and> intensity s1 = 1 / 5
      \<and> last (effectCalls s2)
          = \<lparr>call_fn = ApplyFadeCross, call_intensity = 4 / 5, call_t = 1 / 2\<rparr>
      \<and> last (effectCalls s2)
          \<noteq> \<lparr>call_fn = getEffectFunction (selectedEffect s1), call_intensity = intensity s1,
              call_t = tickProgress 0 1000 (duration s1)\<rparr>
      \<and> surface s2 = surface s1 @ applyFadeCross (Some img0) (Some img1) (1 / 2)"
  by (simp add: loadedState_eq driver_defs getEffectFunction_fadeCross)

text \<open>
  C7 does not hold of the code, by the defect shown for C3: a tick invokes the effect
  function and uses the duration of the closure that started the run, not the ones that
  are active when the tick happens. Here a run is started with \<open>zoomIn\<close> and duration 3,
  and while it is running the user selects \<open>slideLeft\<close> and duration 6. The tick at
  1500 ms invokes \<open>applyZoomIn\<close> with progress 0.5 (the active effect is
  \<open>applySlideLeft\<close>, the progress derived from the active duration 0.25) and requests a
  further frame. The tick at 3000 ms invokes \<open>applyZoomIn\<close> with progress 1, requests no
  frame and sets \<open>isPlaying\<close> to false, although the progress derived from the active
  duration is 0.5, below 1. What the ticks do agrees with C7 when read with the settings
  of the closure: each draws its frame, a successor is requested exactly while that
  progress is below 1, and the frame at progress 1 is drawn before the driver goes idle.
\<close>

theorem tick_keeps_start_settings:
  "let s0 = run [SelectEffect ''zoomIn'', Play 0 0 rnd0] loadedState;
       s1 = run [SelectEffect ''slideLeft'', ChangeDuration 6] s0;
       s2 = step (Frame 1500 rnd0) s1;
       s3 = step (Frame 3000 rnd0) s2
   in isPlaying s1 \<and> selectedEffect s1 = ''slideLeft'' \<and> duration s1 = 6
      \<and> getEffectFunction (selectedEffect s1) = ApplySlideLeft
      \<and> last (effectCalls s2) = \<lparr>call_fn = ApplyZoomIn, call_intensity = 4 / 5, call_t = 1 / 2\<rparr>
      \<and> surface s2 = surface s1 @ applyZoomIn (Some img0) (Some img1) (4 / 5) (1 / 2)
      \<and> progress s2 = 1 / 2
      \<and> isPlaying s2
      \<and> frameRequests s2
          = [(2, 0, \<lparr>cl_duration = 3, cl_selectedEffect = ''zoomIn'', cl_intensity = 4 / 5\<rparr>)]
      \<and> last (effectCalls s3) = \<lparr>call_fn = ApplyZoomIn, call_intensity = 4 / 5, call_t = 1\<rparr>
      \<and> surface s3 = surface s2 @ applyZoomIn (Some img0) (Some img1) (4 / 5) 1
      \<and> progress s3 = 1
      \<and> \<not> isPlaying s3
      \<and> frameRequests s3 = []
      \<and> min (real_of_int (3000 - 0) / 1000 / duration s3) 1 = 1 / 2"
  by (simp add: loadedState_eq driver_defs getEffectFunction_def)

lemma frames_not_play: "\<forall>e \<in> set (map (\<lambda>(c, r). Frame c r) ticks). \<not> isPlay e"
  by (induction ticks) auto

lemma frames_run:
  assumes "canvasMounted s" and "frameRequests s = [(h, start, cl)]"
  shows "effectCalls (run (map (\<lambda>(c, r). Frame c r) ticks) s)
       = effectCalls s @ runCalls cl start (map fst ticks)
    \<and> surface (run (map (\<lambda>(c, r). Frame c r) ticks) s)
       = surface s @ runFrames cl (beforeImageRef s) (afterImageRef s) start ticks"
  using assms
proof (induction ticks arbitrary: s h)
  case Nil
  then show ?case by simp
next
  case (Cons tick ticks)
  obtain c r where tick: "tick = (c, r)"
    by (cases tick) auto
  define s' where "s' = animate cl start c r (s\<lparr>frameRequests := []\<rparr>)"
  have st: "runFrame c r s = s'"
    using Cons.prems by (simp add: runFrame_def s'_def)
  have m: "canvasMounted (s\<lparr>frameRequests := []\<rparr>)"
    using Cons.prems by simp
  show ?case
  proof (cases "tickProgress start c (cl_duration cl) < 1")
    case True
    have a: "canvasMounted s'" and b: "frameRequests s' = [(nextHandle s, start, cl)]"
      and c: "beforeImageRef s' = beforeImageRef s" and d: "afterImageRef s' = afterImageRef s"
      using True Cons.prems by (simp_all add: s'_def animate_tick [OF m] Let_def)
    have e: "effectCalls s' = effectCalls s
        @ [\<lparr>call_fn = getEffectFunction (cl_selectedEffect cl), call_intensity = cl_intensity cl,
            call_t = tickProgress start c (cl_duration cl)\<rparr>]"
      and f: "surface s' = surface s
        @ effectFn (getEffectFunction (cl_selectedEffect cl)) (beforeImageRef s) (afterImageRef s)
            (cl_intensity cl) r (tickProgress start c (cl_duration cl))"
      using True by (simp_all add: s'_def animate_tick [OF m] Let_def)
    show ?thesis
      using Cons.IH [OF a b] True by (simp add: tick st c d e f)
  next
    case False
    have b: "frameRequests s' = []"
      using False by (simp add: s'_def animate_tick [OF m] Let_def)
    have e: "effectCalls s' = effectCalls s
        @ [\<lparr>call_fn = getEffectFunction (cl_selectedEffect cl), call_intensity = cl_intensity cl,
            call_t = tickProgress start c (cl_duration cl)\<rparr>]"
      and f: "surface s' = surface s
        @ effectFn (getEffectFunction (cl_selectedEffect cl)) (beforeImageRef s) (afterImageRef s)
            (cl_intensity cl) r (tickProgress start c (cl_duration cl))"
      using False by (simp_all add: s'_def animate_tick [OF m] Let_def)
    show ?thesis
      using quiet_run [OF b frames_not_play [of ticks]] False by (simp add: tick st e f)
  qed
qed

lemma play_run:
  assumes "reachable s" and "beforeImage s \<noteq> None" and "afterImage s \<noteq> None"
  shows "effectCalls (run (playRun now now' r ticks) s)
       = effectCalls s @ runCalls (currentAnimate s) now (now' # map fst ticks)
    \<and> surface (run (playRun now now' r ticks) s)
       = surface s
         @ runFrames (currentAnimate s) (beforeImageRef s) (afterImageRef s) now ((now', r) # ticks)"
proof -
  define cl where "cl = currentAnimate s"
  define s1 where "s1 = (case pendingHandle s of None \<Rightarrow> s | Some h \<Rightarrow> cancelAnimationFrame h s)"
  define s3 where "s3 = s1\<lparr>isPlaying := True, progress := 0\<rparr>"
  have inv: "atMostOnePending s"
    using assms(1) by (rule reachable_pending)
  have e: "frameRequests s3 = []"
    using inv cancel_pending pending_none
    by (cases "pendingHandle s") (simp_all add: s1_def s3_def)
  have k: "canvasMounted s3 \<and> effectCalls s3 = effectCalls s \<and> surface s3 = surface s
      \<and> beforeImageRef s3 = beforeImageRef s \<and> afterImageRef s3 = afterImageRef s"
    using inv
    by (cases "pendingHandle s")
      (simp_all add: s1_def s3_def atMostOnePending_iff cancelAnimationFrame_def)
  then have m: "canvasMounted s3"
    by simp
  define s' where "s' = animate cl now now' r s3"
  have st: "playAnimation now now' r s = s'"
    using assms(2,3) by (auto simp: playAnimation_def s1_def s3_def s'_def cl_def Let_def)
  have ec: "effectCalls s' = effectCalls s
        @ [\<lparr>call_fn = getEffectFunction (cl_selectedEffect cl), call_intensity = cl_intensity cl,
            call_t = tickProgress now now' (cl_duration cl)\<rparr>]"
      and sf: "surface s' = surface s
        @ effectFn (getEffectFunction (cl_selectedEffect cl)) (beforeImageRef s) (afterImageRef s)
            (cl_intensity cl) r (tickProgress now now' (cl_duration cl))"
      and rf: "beforeImageRef s' = beforeImageRef s" "afterImageRef s' = afterImageRef s"
        "canvasMounted s'"
    using k by (simp_all add: s'_def animate_tick [OF m] Let_def)
  show ?thesis
  proof (cases "tickProgress now now' (cl_duration cl) < 1")
    case True
    have b: "frameRequests s' = [(nextHandle s3, now, cl)]"
      using True e by (simp add: s'_def animate_tick [OF m] Let_def)
    show ?thesis
      using frames_run [OF rf(3) b, of ticks] True
      by (simp add: playRun_def st ec sf rf cl_def [symmetric])
  next
    case False
    have b: "frameRequests s' = []"
      using False e by (simp add: s'_def animate_tick [OF m] Let_def)
    show ?thesis
      using quiet_run [OF b frames_not_play [of ticks]] False
      by (simp add: playRun_def st ec sf cl_def [symmetric])
  qed
qed

lemma runCalls_take:
  "\<exists>n. (cs \<noteq> [] \<longrightarrow> 0 < n)
     \<and> map call_t (runCalls cl start cs)
       = map (\<lambda>c. tickProgress start c (cl_duration cl)) (take n cs)"
proof (induction cs)
  case Nil
  then show ?case by simp
next
  case (Cons c cs)
  then obtain n where n: "map call_t (runCalls cl start cs)
      = map (\<lambda>c. tickProgress start c (cl_duration cl)) (take n cs)"
    by blast
  show ?case
  proof (cases "tickProgress start c (cl_duration cl) < 1")
    case True
    then have "map call_t (runCalls cl start (c # cs))
      = map (\<lambda>c. tickProgress start c (cl_duration cl)) (take (Suc n) (c # cs))"
      using n by simp
    then show ?thesis by blast
  next
    case False
    then have "map call_t (runCalls cl start (c # cs))
      = map (\<lambda>c. tickProgress start c (cl_duration cl)) (take (Suc 0) (c # cs))"
      by simp
    then show ?thesis by blast
  qed
qed

lemma tickProgress_mono:
  assumes "0 < d" and "c \<le> c'"
  shows "tickProgress start c d \<le> tickProgress start c' d"
proof -
  have "real_of_int (c - start) / 1000 / d \<le> real_of_int (c' - start) / 1000 / d"
    using assms by (simp add: divide_right_mono)
  then show ?thesis
    by (simp add: tickProgress_def Let_def min_def)
qed

lemma tickProgress_nonneg:
  assumes "0 < d" and "start \<le> c"
  shows "0 \<le> tickProgress start c d"
  using assms by (simp add: tickProgress_def Let_def)

lemma tickProgress_sorted:
  assumes "0 < d" and "sorted cs"
  shows "sorted (map (\<lambda>c. tickProgress start c d) cs)"
  using assms(2)
proof (induction cs)
  case Nil
  then show ?case by simp
next
  case (Cons c cs)
  then show ?case
    using tickProgress_mono [OF assms(1)] by auto
qed


text \<open>
  C2. A run is started in a reachable state with both images present and a positive
  duration, and the clock never goes back. Then the progress values passed to the effect
  function, tick after tick, are \<open>min (elapsed / duration) 1\<close> for the first \<open>n\<close> clock
  readings of the run (at least the first one), with \<open>elapsed\<close> the seconds since the start
  time; each lies between 0 and 1, and the sequence never decreases.
\<close>

theorem progress_clamped_monotone:
  assumes "reachable s" and "beforeImage s \<noteq> None" and "afterImage s \<noteq> None"
    and "0 < duration s" and "sorted (now # now' # map fst ticks)"
  shows "\<exists>n. 0 < n
    \<and> map call_t (drop (length (effectCalls s)) (effectCalls (run (playRun now now' rnd ticks) s)))
        = map (\<lambda>c. min (real_of_int (c - now) / 1000 / duration s) 1)
            (take n (now' # map fst ticks))
    \<and> (\<forall>t \<in> set (map call_t (drop (length (effectCalls s))
                     (effectCalls (run (playRun now now' rnd ticks) s)))). 0 \<le> t \<and> t \<le> 1)
    \<and> sorted (map call_t (drop (length (effectCalls s))
                 (effectCalls (run (playRun now now' rnd ticks) s))))"
proof -
  define cs where "cs = now' # map fst ticks"
  define cl where "cl = currentAnimate s"
  have d: "cl_duration cl = duration s"
    by (simp add: cl_def currentAnimate_def)
  have new: "drop (length (effectCalls s)) (effectCalls (run (playRun now now' rnd ticks) s))
      = runCalls cl now cs"
    using play_run [OF assms(1,2,3), of now now' rnd ticks] by (simp add: cl_def cs_def)
  have "cs \<noteq> []"
    by (simp add: cs_def)
  then obtain n where n: "0 < n"
    and ts: "map call_t (runCalls cl now cs)
      = map (\<lambda>c. tickProgress now c (duration s)) (take n cs)"
    using runCalls_take [of cs cl now] unfolding d by blast
  have scs: "sorted cs" and lo: "\<forall>c \<in> set cs. now \<le> c"
    using assms(5) unfolding cs_def by simp_all
  have srt: "sorted (take n cs)"
    using scs by (rule sorted_wrt_take)
  have ge: "\<forall>c \<in> set (take n cs). now \<le> c"
    using lo set_take_subset [of n cs] by blast
  have rng: "\<forall>t \<in> set (map (\<lambda>c. tickProgress now c (duration s)) (take n cs)). 0 \<le> t \<and> t \<le> 1"
  proof
    fix t
    assume "t \<in> set (map (\<lambda>c. tickProgress now c (duration s)) (take n cs))"
    then obtain c where c: "c \<in> set (take n cs)" and t: "t = tickProgress now c (duration s)"
      by auto
    show "0 \<le> t \<and> t \<le> 1"
      using tickProgress_nonneg [OF assms(4), of now c] tickProgress_le_1 [of now c "duration s"]
        ge c unfolding t by blast
  qed
  have mono: "sorted (map (\<lambda>c. tickProgress now c (duration s)) (take n cs))"
    using tickProgress_sorted [OF assms(4) srt] .
  have form: "(\<lambda>c. tickProgress now c (duration s))
      = (\<lambda>c. min (real_of_int (c - now) / 1000 / duration s) 1)"
    by (simp add: tickProgress_def Let_def)
  have "0 < n
    \<and> map call_t (runCalls cl now cs)
        = map (\<lambda>c. tickProgress now c (duration s)) (take n cs)
    \<and> (\<forall>t \<in> set (map call_t (runCalls cl now cs)). 0 \<le> t \<and> t \<le> 1)
    \<and> sorted (map call_t (runCalls cl now cs))"
    using n rng mono unfolding ts by simp
  then show ?thesis
    unfolding new form cs_def by (rule exI)
qed


theorem progress_clamped_monotone_witness:
  "reachable loadedState \<and> beforeImage loadedState \<noteq> None \<and> afterImage loadedState \<noteq> None
   \<and> 0 < duration loadedState
   \<and> sorted (0 # 0 # map fst [(1000, rnd0), (2000, rnd0), (4000, rnd0), (5000 :: int, rnd0)])
   \<and> map call_t (drop (length (effectCalls loadedState))
        (effectCalls (run (playRun 0 0 rnd0 [(1000, rnd0), (2000, rnd0), (4000, rnd0), (5000, rnd0)])
           loadedState)))
      = [0, 1 / 3, 2 / 3, 1]
   \<and> sorted (map call_t (drop (length (effectCalls loadedState))
        (effectCalls (run (playRun 0 0 rnd0 [(1000, rnd0), (2000, rnd0), (4000, rnd0), (5000, rnd0)])
           loadedState))))"
proof -
  have h1: "reachable loadedState"
    by (rule loadedState_reachable)
  have h2: "beforeImage loadedState \<noteq> None" and h3: "afterImage loadedState \<noteq> None"
    and h4: "0 < duration loadedState"
    by (simp_all add: loadedState_eq)
  have h5: "sorted (0 # 0 # map fst [(1000, rnd0), (2000, rnd0), (4000, rnd0), (5000 :: int, rnd0)])"
    by simp
  have ev: "map call_t (drop (length (effectCalls loadedState))
        (effectCalls (run (playRun 0 0 rnd0 [(1000, rnd0), (2000, rnd0), (4000, rnd0), (5000, rnd0)])
           loadedState)))
      = [0, 1 / 3, 2 / 3, 1]"
    by (simp add: playRun_def loadedState_eq driver_defs)
  have srt: "sorted (map call_t (drop (length (effectCalls loadedState))
        (effectCalls (run (playRun 0 0 rnd0 [(1000, rnd0), (2000, rnd0), (4000, rnd0), (5000, rnd0)])
           loadedState))))"
    using progress_clamped_monotone [OF h1 h2 h3 h4 h5, of rnd0] by blast
  from h1 h2 h3 h4 h5 ev srt show ?thesis
    by (intro conjI)
qed

lemma upt100: "[0..<100] = 0 # [1..<100]"
  by (simp add: upt_conv_Cons)

lemma filmBurn_random:
  assumes "b \<noteq> None" and "a \<noteq> None" and "t < 19 / 20" and "r1 3 \<noteq> r2 3"
  shows "applyFilmBurn b a i r1 t \<noteq> applyFilmBurn b a i r2 t"
proof
  assume "applyFilmBurn b a i r1 t = applyFilmBurn b a i r2 t"
  then show False
    using assms
    by (simp add: applyFilmBurn_def Let_def upt100 del: upt.simps upt_rec_numeral)
qed

lemma effect_random_free:
  assumes "fn \<noteq> ApplyFilmBurn" and "fn \<noteq> ApplyParticleBurst"
  shows "effectFn fn b a i r1 t = effectFn fn b a i r2 t"
  using assms by (cases fn) simp_all

lemma tickProgress_offset: "tickProgress start (start + d) dur = tickProgress 0 d dur"
  by (simp add: tickProgress_def)

lemma runFrames_offsets:
  assumes "getEffectFunction (cl_selectedEffect cl) \<noteq> ApplyFilmBurn"
    and "getEffectFunction (cl_selectedEffect cl) \<noteq> ApplyParticleBurst"
  shows "runFrames cl b a now1 (map (\<lambda>(d, r, r'). (now1 + d, r)) offs)
       = runFrames cl b a now2 (map (\<lambda>(d, r, r'). (now2 + d, r')) offs)"
proof (induction offs)
  case Nil
  then show ?case by simp
next
  case (Cons x offs)
  obtain d r r' where x: "x = (d, r, r')"
    by (cases x) auto
  show ?case
    using Cons.IH effect_random_free [OF assms, of b a "cl_intensity cl" r _ r']
    by (simp add: x tickProgress_offset)
qed

lemma animate_keeps_setup: "runSetup (animate cl start c r s) = runSetup s"
  by (simp add: runSetup_def animate_def Let_def requestAnimationFrame_def currentAnimate_def)

lemma playAnimation_keeps_setup: "runSetup (playAnimation now now' r s) = runSetup s"
proof -
  have "runSetup (case pendingHandle s of None \<Rightarrow> s | Some h \<Rightarrow> cancelAnimationFrame h s) = runSetup s"
    by (simp add: runSetup_def cancelAnimationFrame_def currentAnimate_def split: option.splits)
  then have "runSetup ((case pendingHandle s of None \<Rightarrow> s | Some h \<Rightarrow> cancelAnimationFrame h s)
      \<lparr>isPlaying := True, progress := 0\<rparr>) = runSetup s"
    by (simp add: runSetup_def currentAnimate_def)
  then show ?thesis
    by (simp add: playAnimation_def Let_def animate_keeps_setup)
      (simp add: runSetup_def currentAnimate_def)
qed

lemma runFrame_keeps_setup: "runSetup (runFrame c r s) = runSetup s"
proof (cases "frameRequests s")
  case Nil
  then show ?thesis by (simp add: runFrame_def)
next
  case (Cons x rest)
  obtain h start cl where x: "x = (h, start, cl)"
    by (cases x) auto
  have "runSetup (s\<lparr>frameRequests := rest\<rparr>) = runSetup s"
    by (simp add: runSetup_def currentAnimate_def)
  then show ?thesis
    using Cons by (simp add: runFrame_def x animate_keeps_setup)
qed

lemma frames_keep_setup: "runSetup (run (map (\<lambda>(c, r). Frame c r) ticks) s) = runSetup s"
proof (induction ticks arbitrary: s)
  case Nil
  then show ?case by simp
next
  case (Cons x ticks)
  obtain c r where x: "x = (c, r)"
    by (cases x) auto
  show ?case
    using Cons.IH [of "runFrame c r s"] runFrame_keeps_setup [of c r s] by (simp add: x)
qed

lemma playRun_keeps_setup: "runSetup (run (playRun now now' r ticks) s) = runSetup s"
  using frames_keep_setup [of ticks "playAnimation now now' r s"]
    playAnimation_keeps_setup [of now now' r s]
  by (simp add: playRun_def)

lemma step_refs:
  assumes "beforeImageRef s = beforeImage s \<and> afterImageRef s = afterImage s"
  shows "beforeImageRef (step e s) = beforeImage (step e s)
    \<and> afterImageRef (step e s) = afterImage (step e s)"
proof (cases e)
  case (Play now now' rnd)
  then show ?thesis using assms playAnimation_keeps_setup [of now now' rnd s] by (simp add: runSetup_def)
next
  case Stop
  then show ?thesis
    using assms by (simp add: stopAnimation_def cancelAnimationFrame_def split: option.splits)
next
  case (Frame c rnd)
  then show ?thesis using assms runFrame_keeps_setup [of c rnd s] by (simp add: runSetup_def)
next
  case (Upload f ty)
  then show ?thesis
    using assms by (cases f) (simp_all add: handleImageUpload_def)
qed (use assms in simp_all)

lemma reachable_refs:
  "reachable s \<Longrightarrow> beforeImageRef s = beforeImage s \<and> afterImageRef s = afterImage s"
proof (induction rule: reachable.induct)
  case (reachable_init defaultDuration defaultIntensity)
  show ?case by (simp add: initialState_def)
next
  case (reachable_step s e)
  show ?case using reachable_step.IH by (rule step_refs)
qed


lemma tickProgress_now: "tickProgress now now d = 0"
  by (simp add: tickProgress_def)

lemma playAnimation_first_tick:
  assumes "reachable s" and "beforeImage s \<noteq> None" and "afterImage s \<noteq> None"
  shows "progress (playAnimation now now' rnd s) = tickProgress now now' (duration s)
    \<and> surface (playAnimation now now' rnd s)
       = surface s @ effectFn (getEffectFunction (selectedEffect s)) (beforeImage s) (afterImage s)
                       (intensity s) rnd (tickProgress now now' (duration s))"
proof -
  define s1 where "s1 = (case pendingHandle s of None \<Rightarrow> s | Some h \<Rightarrow> cancelAnimationFrame h s)"
  define s3 where "s3 = s1\<lparr>isPlaying := True, progress := 0\<rparr>"
  have refs: "beforeImageRef s = beforeImage s" "afterImageRef s = afterImage s"
    using reachable_refs [OF assms(1)] by simp_all
  have k: "canvasMounted s3 \<and> surface s3 = surface s
      \<and> beforeImageRef s3 = beforeImageRef s \<and> afterImageRef s3 = afterImageRef s"
    using reachable_pending [OF assms(1)]
    by (cases "pendingHandle s")
      (simp_all add: s1_def s3_def atMostOnePending_iff cancelAnimationFrame_def)
  then have m: "canvasMounted s3"
    by simp
  have st: "playAnimation now now' rnd s = animate (currentAnimate s) now now' rnd s3"
    using assms(2,3) by (auto simp: playAnimation_def s1_def s3_def Let_def)
  show ?thesis
    using k refs by (simp add: st animate_tick [OF m] Let_def currentAnimate_def)
qed

text \<open>
  C9. In a reachable state with both images present and a duration other than 0, a play
  request sets the progress to that of its first tick, whatever it was before: to 0 when
  the clock has not advanced between the request and the tick. For every effect other than
  film burn and particle burst (the two that call \<open>Math.random\<close>), so in particular for
  random blocks and shatter, a run and a later second run with the same tick offsets draw
  the same sequence of context calls, whatever the start times and the random numbers.
  With film burn, two random sources that differ in the fourth number of the frame give
  different first frames.
\<close>

theorem rerun_reproduces_frames:
  assumes "reachable s" and "beforeImage s \<noteq> None" and "afterImage s \<noteq> None"
    and "duration s \<noteq> 0"
  shows "progress (step (Play now now' rnd) s) = min (real_of_int (now' - now) / 1000 / duration s) 1
    \<and> progress (step (Play now now rnd) s) = 0
    \<and> (getEffectFunction (selectedEffect s) \<noteq> ApplyFilmBurn
         \<and> getEffectFunction (selectedEffect s) \<noteq> ApplyParticleBurst \<longrightarrow>
         drop (length (surface (run (playRun now1 (now1 + d0) ra
                                  (map (\<lambda>(d, r, r'). (now1 + d, r)) offs)) s)))
           (surface (run (playRun now2 (now2 + d0) rb (map (\<lambda>(d, r, r'). (now2 + d, r')) offs))
              (run (playRun now1 (now1 + d0) ra (map (\<lambda>(d, r, r'). (now1 + d, r)) offs)) s)))
         = drop (length (surface s))
             (surface (run (playRun now1 (now1 + d0) ra
                         (map (\<lambda>(d, r, r'). (now1 + d, r)) offs)) s)))
    \<and> (selectedEffect s = ''filmBurn'' \<and> r1 3 \<noteq> r2 3 \<longrightarrow>
         surface (step (Play now now r1) s) \<noteq> surface (step (Play now now r2) s))"
proof (intro conjI impI)
  show "progress (step (Play now now' rnd) s) = min (real_of_int (now' - now) / 1000 / duration s) 1"
    using playAnimation_first_tick [OF assms(1,2,3), of now now' rnd]
    by (simp add: tickProgress_def Let_def)
next
  show "progress (step (Play now now rnd) s) = 0"
    using playAnimation_first_tick [OF assms(1,2,3), of now now rnd]
    by (simp add: tickProgress_now)
next
  assume det: "getEffectFunction (selectedEffect s) \<noteq> ApplyFilmBurn
      \<and> getEffectFunction (selectedEffect s) \<noteq> ApplyParticleBurst"
  define s1 where "s1 = run (playRun now1 (now1 + d0) ra (map (\<lambda>(d, r, r'). (now1 + d, r)) offs)) s"
  define cl where "cl = currentAnimate s"
  have same: "runSetup s1 = runSetup s"
    unfolding s1_def by (rule playRun_keeps_setup)
  have r1: "reachable s1"
    unfolding s1_def using assms(1) by (rule reachable_run)
  have i1: "beforeImage s1 \<noteq> None" "afterImage s1 \<noteq> None"
    using same assms(2,3) by (simp_all add: runSetup_def)
  have e: "currentAnimate s1 = cl" "beforeImageRef s1 = beforeImageRef s"
      "afterImageRef s1 = afterImageRef s"
    using same by (simp_all add: runSetup_def cl_def)
  have d: "getEffectFunction (cl_selectedEffect cl) \<noteq> ApplyFilmBurn"
      "getEffectFunction (cl_selectedEffect cl) \<noteq> ApplyParticleBurst"
    using det by (simp_all add: cl_def currentAnimate_def)
  have f1: "surface s1 = surface s
      @ runFrames cl (beforeImageRef s) (afterImageRef s) now1
          (map (\<lambda>(d, r, r'). (now1 + d, r)) ((d0, ra, rb) # offs))"
    using play_run [OF assms(1,2,3), of now1 "now1 + d0" ra "map (\<lambda>(d, r, r'). (now1 + d, r)) offs"]
    by (simp add: s1_def cl_def)
  have f2: "surface (run (playRun now2 (now2 + d0) rb (map (\<lambda>(d, r, r'). (now2 + d, r')) offs)) s1)
      = surface s1
      @ runFrames cl (beforeImageRef s) (afterImageRef s) now2
          (map (\<lambda>(d, r, r'). (now2 + d, r')) ((d0, ra, rb) # offs))"
    using play_run [OF r1 i1, of now2 "now2 + d0" rb "map (\<lambda>(d, r, r'). (now2 + d, r')) offs"]
    by (simp add: e)
  show "drop (length (surface (run (playRun now1 (now1 + d0) ra
                                  (map (\<lambda>(d, r, r'). (now1 + d, r)) offs)) s)))
           (surface (run (playRun now2 (now2 + d0) rb (map (\<lambda>(d, r, r'). (now2 + d, r')) offs))
              (run (playRun now1 (now1 + d0) ra (map (\<lambda>(d, r, r'). (now1 + d, r)) offs)) s)))
         = drop (length (surface s))
             (surface (run (playRun now1 (now1 + d0) ra
                         (map (\<lambda>(d, r, r'). (now1 + d, r)) offs)) s))"
    unfolding s1_def [symmetric] f2 unfolding f1
    using runFrames_offsets [OF d, of "beforeImageRef s" "afterImageRef s" now1 "(d0, ra, rb) # offs" now2]
    by simp
next
  assume fb: "selectedEffect s = ''filmBurn'' \<and> r1 3 \<noteq> r2 3"
  have g: "getEffectFunction (selectedEffect s) = ApplyFilmBurn"
    using fb by (simp add: getEffectFunction_def)
  have ne: "applyFilmBurn (beforeImage s) (afterImage s) (intensity s) r1 0
      \<noteq> applyFilmBurn (beforeImage s) (afterImage s) (intensity s) r2 0"
    using fb assms(2,3) by (intro filmBurn_random) simp_all
  show "surface (step (Play now now r1) s) \<noteq> surface (step (Play now now r2) s)"
    using ne playAnimation_first_tick [OF assms(1,2,3), of now now r1]
      playAnimation_first_tick [OF assms(1,2,3), of now now r2]
    by (simp add: g tickProgress_now)
qed


lemma randomBlocks_state:
  "reachable (step (SelectEffect ''randomBlocks'') loadedState)
   \<and> beforeImage (step (SelectEffect ''randomBlocks'') loadedState) \<noteq> None
   \<and> afterImage (step (SelectEffect ''randomBlocks'') loadedState) \<noteq> None
   \<and> duration (step (SelectEffect ''randomBlocks'') loadedState) \<noteq> 0
   \<and> getEffectFunction (selectedEffect (step (SelectEffect ''randomBlocks'') loadedState))
       \<noteq> ApplyFilmBurn
   \<and> getEffectFunction (selectedEffect (step (SelectEffect ''randomBlocks'') loadedState))
       \<noteq> ApplyParticleBurst"
proof -
  have "reachable (step (SelectEffect ''randomBlocks'') loadedState)"
    using loadedState_reachable by (rule reachable_step)
  then show ?thesis
    by (simp add: loadedState_eq getEffectFunction_def)
qed

lemma filmBurn_state:
  "reachable (step (SelectEffect ''filmBurn'') loadedState)
   \<and> beforeImage (step (SelectEffect ''filmBurn'') loadedState) \<noteq> None
   \<and> afterImage (step (SelectEffect ''filmBurn'') loadedState) \<noteq> None
   \<and> duration (step (SelectEffect ''filmBurn'') loadedState) \<noteq> 0
   \<and> selectedEffect (step (SelectEffect ''filmBurn'') loadedState) = ''filmBurn''
   \<and> rnd0 3 \<noteq> rndHalf 3"
proof -
  have "reachable (step (SelectEffect ''filmBurn'') loadedState)"
    using loadedState_reachable by (rule reachable_step)
  then show ?thesis
    by (simp add: loadedState_eq rnd0_def rndHalf_def)
qed

theorem rerun_reproduces_frames_witness:
  "(reachable (step (SelectEffect ''randomBlocks'') loadedState)
    \<and> beforeImage (step (SelectEffect ''randomBlocks'') loadedState) \<noteq> None
    \<and> afterImage (step (SelectEffect ''randomBlocks'') loadedState) \<noteq> None
    \<and> duration (step (SelectEffect ''randomBlocks'') loadedState) \<noteq> 0
    \<and> getEffectFunction (selectedEffect (step (SelectEffect ''randomBlocks'') loadedState))
        \<noteq> ApplyFilmBurn
    \<and> getEffectFunction (selectedEffect (step (SelectEffect ''randomBlocks'') loadedState))
        \<noteq> ApplyParticleBurst)
   \<and> (reachable (step (SelectEffect ''filmBurn'') loadedState)
    \<and> beforeImage (step (SelectEffect ''filmBurn'') loadedState) \<noteq> None
    \<and> afterImage (step (SelectEffect ''filmBurn'') loadedState) \<noteq> None
    \<and> duration (step (SelectEffect ''filmBurn'') loadedState) \<noteq> 0
    \<and> selectedEffect (step (SelectEffect ''filmBurn'') loadedState) = ''filmBurn''
    \<and> rnd0 3 \<noteq> rndHalf 3)
   \<and> progress (step (Play 7000 7000 rnd0) (step (SelectEffect ''randomBlocks'') loadedState)) = 0
   \<and> drop (length (surface (run (playRun 0 (0 + 0) rnd0
                 (map (\<lambda>(d, r, r'). (0 + d, r)) [(1500, rnd0, rndHalf), (3000, rnd0, rndHalf)]))
                 (step (SelectEffect ''randomBlocks'') loadedState))))
        (surface (run (playRun 7000 (7000 + 0) rndHalf
                    (map (\<lambda>(d, r, r'). (7000 + d, r')) [(1500, rnd0, rndHalf), (3000, rnd0, rndHalf)]))
           (run (playRun 0 (0 + 0) rnd0
                  (map (\<lambda>(d, r, r'). (0 + d, r)) [(1500, rnd0, rndHalf), (3000, rnd0, rndHalf)]))
              (step (SelectEffect ''randomBlocks'') loadedState))))
      = drop (length (surface (step (SelectEffect ''randomBlocks'') loadedState)))
          (surface (run (playRun 0 (0 + 0) rnd0
                      (map (\<lambda>(d, r, r'). (0 + d, r)) [(1500, rnd0, rndHalf), (3000, rnd0, rndHalf)]))
             (step (SelectEffect ''randomBlocks'') loadedState)))
   \<and> surface (step (Play 0 0 rnd0) (step (SelectEffect ''filmBurn'') loadedState))
      \<noteq> surface (step (Play 0 0 rndHalf) (step (SelectEffect ''filmBurn'') loadedState))"
proof -
  note rb = randomBlocks_state
  note fb = filmBurn_state
  note a = rerun_reproduces_frames [OF rb [THEN conjunct1] rb [THEN conjunct2, THEN conjunct1]
      rb [THEN conjunct2, THEN conjunct2, THEN conjunct1]
      rb [THEN conjunct2, THEN conjunct2, THEN conjunct2, THEN conjunct1],
      where now = 7000 and now' = 7000 and rnd = rnd0 and ?now1.0 = 0 and ?d0.0 = 0 and ra = rnd0
        and rb = rndHalf and ?now2.0 = 7000
        and offs = "[(1500, rnd0, rndHalf), (3000, rnd0, rndHalf)]"]
  note b = rerun_reproduces_frames [OF fb [THEN conjunct1] fb [THEN conjunct2, THEN conjunct1]
      fb [THEN conjunct2, THEN conjunct2, THEN conjunct1]
      fb [THEN conjunct2, THEN conjunct2, THEN conjunct2, THEN conjunct1],
      where now = 0 and ?r1.0 = rnd0 and ?r2.0 = rndHalf]
  have p: "progress (step (Play 7000 7000 rnd0) (step (SelectEffect ''randomBlocks'') loadedState)) = 0"
    using a by blast
  note det = rb [THEN conjunct2, THEN conjunct2, THEN conjunct2, THEN conjunct2]
  note q = a [THEN conjunct2, THEN conjunct2, THEN conjunct1, THEN mp, OF det]
  note fbh = fb [THEN conjunct2, THEN conjunct2, THEN conjunct2, THEN conjunct2]
  note r = b [THEN conjunct2, THEN conjunct2, THEN conjunct2, THEN mp, OF fbh]
  show ?thesis
    by (rule conjI [OF rb conjI [OF fb conjI [OF p conjI [OF q r]]]])
qed


end
